theory Spec2Isabelle
  imports Complex_Main "HOL-Library.Word" "HOL-Library.Log_Nat"
begin

section \<open>Thrown values, the logger and effectful wrapper code\<close>

text \<open>
  The wrappers are TypeScript methods that call external engines, write log lines and
  throw. A thrown value is an error object with its class and message. A wrapper method
  is a function from the state it can change to its outcome (\<open>Inl\<close> the thrown error,
  \<open>Inr\<close> the returned value) and the state afterwards. A promise that rejects is the
  same as a throw at the \<open>await\<close>, a promise that resolves is a return.
\<close>

datatype error = Error string | TypeError string | RangeError string

fun message :: "error \<Rightarrow> string" where
  "message (Error m) = m"
| "message (TypeError m) = m"
| "message (RangeError m) = m"

datatype level = Debug | Info | Warn | Err

text \<open>
  A log line: its level, its message and the error object attached to it, if any. The
  other context fields of a log line (paths, ids, sizes) are not kept.
\<close>

type_synonym log_entry = "level \<times> string \<times> error option"

record base =
  logged :: "log_entry list"

type_synonym ('s, 'a) io = "'s \<Rightarrow> (error + 'a) \<times> 's"

definition ret :: "'a \<Rightarrow> ('s, 'a) io" where
  "ret x = (\<lambda>s. (Inr x, s))"

definition throw :: "error \<Rightarrow> ('s, 'a) io" where
  "throw e = (\<lambda>s. (Inl e, s))"

text \<open>The outcome of an external call that does not touch the modelled state.\<close>

definition lift :: "error + 'a \<Rightarrow> ('s, 'a) io" where
  "lift r = (\<lambda>s. (r, s))"

definition attempt :: "error option \<Rightarrow> ('s, unit) io" where
  "attempt r = (\<lambda>s. (case r of None \<Rightarrow> Inr () | Some e \<Rightarrow> Inl e, s))"

text \<open>Sequencing: a throw skips the rest, the state changes made so far stay.\<close>

definition io_bind :: "('s, 'a) io \<Rightarrow> ('a \<Rightarrow> ('s, 'b) io) \<Rightarrow> ('s, 'b) io" where
  "io_bind m f = (\<lambda>s. case m s of (Inl e, s') \<Rightarrow> (Inl e, s') | (Inr x, s') \<Rightarrow> f x s')"

text \<open>\<open>try { m } catch (error) { h error }\<close>\<close>

definition try_catch :: "('s, 'a) io \<Rightarrow> (error \<Rightarrow> ('s, 'a) io) \<Rightarrow> ('s, 'a) io" where
  "try_catch m h = (\<lambda>s. case m s of (Inl e, s') \<Rightarrow> h e s' | (Inr x, s') \<Rightarrow> (Inr x, s'))"

definition logger :: "level \<Rightarrow> string \<Rightarrow> error option \<Rightarrow> ('z base_scheme, unit) io" where
  "logger l m e = (\<lambda>s. (Inr (), s\<lparr>logged := logged s @ [(l, m, e)]\<rparr>))"

section \<open>JavaScript numbers and strings\<close>

text \<open>
  A JavaScript number is a binary64 floating-point number: a finite value, an infinity
  or NaN. A finite value is kept as the real number it stands for. The sign of zero is
  not kept.
\<close>

datatype number = Fin real | PInf | NInf | NaN

text \<open>
  Rounding to a binary format with \<open>p\<close> bits of precision, least exponent \<open>emin\<close> of
  the unit in the last place, and overflow from \<open>2 powi emax\<close> on. \<open>ilog2 x\<close> is the
  exponent of the power of two at or below a positive \<open>x\<close>; the unit in the last place
  of \<open>x\<close> follows from it; \<open>x\<close> goes to the nearest multiple of that unit, a tie to
  the even one.
\<close>

definition ilog2 :: "real \<Rightarrow> int" where
  "ilog2 x = (if 1 \<le> x then bitlen \<lfloor>x\<rfloor> - 1 else - bitlen (\<lceil>1 / x\<rceil> - 1))"

definition round_half_even :: "real \<Rightarrow> int" where
  "round_half_even y =
     (let f = \<lfloor>y\<rfloor>; d = y - of_int f
      in if d < 1 / 2 then f else if 1 / 2 < d then f + 1 else if even f then f else f + 1)"

definition ulp_exponent :: "nat \<Rightarrow> int \<Rightarrow> real \<Rightarrow> int" where
  "ulp_exponent p emin x = max (ilog2 \<bar>x\<bar> - (int p - 1)) emin"

definition nearest :: "nat \<Rightarrow> int \<Rightarrow> real \<Rightarrow> real" where
  "nearest p emin x =
     (if x = 0 then 0
      else let e = ulp_exponent p emin x
           in of_int (round_half_even (x / 2 powi e)) * 2 powi e)"

definition round_binary :: "nat \<Rightarrow> int \<Rightarrow> int \<Rightarrow> real \<Rightarrow> number" where
  "round_binary p emin emax x =
     (let y = nearest p emin x
      in if 2 powi emax \<le> y then PInf
         else if y \<le> - (2 powi emax) then NInf
         else Fin y)"

text \<open>binary64, the format of a JavaScript number, and binary32, the format of a float tensor.\<close>

definition round64 :: "real \<Rightarrow> number" where
  "round64 x = round_binary 53 (- 1074) 1024 x"

definition is_double :: "real \<Rightarrow> bool" where
  "is_double x \<longleftrightarrow> round64 x = Fin x"

definition is_float32 :: "real \<Rightarrow> bool" where
  "is_float32 x \<longleftrightarrow> round_binary 24 (- 149) 128 x = Fin x"

text \<open>A finite JavaScript number is a number of binary64.\<close>

fun is_number :: "number \<Rightarrow> bool" where
  "is_number (Fin x) = is_double x"
| "is_number _ = True"

text \<open>The operator \<open>*\<close>: the product, rounded.\<close>

fun js_mul :: "number \<Rightarrow> number \<Rightarrow> number" where
  "js_mul NaN _ = NaN"
| "js_mul _ NaN = NaN"
| "js_mul (Fin a) (Fin b) = round64 (a * b)"
| "js_mul (Fin a) PInf = (if a = 0 then NaN else if 0 < a then PInf else NInf)"
| "js_mul (Fin a) NInf = (if a = 0 then NaN else if 0 < a then NInf else PInf)"
| "js_mul PInf (Fin b) = (if b = 0 then NaN else if 0 < b then PInf else NInf)"
| "js_mul NInf (Fin b) = (if b = 0 then NaN else if 0 < b then NInf else PInf)"
| "js_mul PInf PInf = PInf"
| "js_mul PInf NInf = NInf"
| "js_mul NInf PInf = NInf"
| "js_mul NInf NInf = PInf"

text \<open>The operator \<open>/\<close>: the quotient, rounded. A zero divisor is taken as \<open>+0\<close>.\<close>

fun js_div :: "number \<Rightarrow> number \<Rightarrow> number" where
  "js_div NaN _ = NaN"
| "js_div _ NaN = NaN"
| "js_div (Fin a) (Fin b) =
     (if b = 0 then (if a = 0 then NaN else if 0 < a then PInf else NInf)
      else round64 (a / b))"
| "js_div (Fin a) PInf = Fin 0"
| "js_div (Fin a) NInf = Fin 0"
| "js_div PInf (Fin b) = (if 0 \<le> b then PInf else NInf)"
| "js_div NInf (Fin b) = (if 0 \<le> b then NInf else PInf)"
| "js_div PInf PInf = NaN"
| "js_div PInf NInf = NaN"
| "js_div NInf PInf = NaN"
| "js_div NInf NInf = NaN"

text \<open>\<open>Math.floor\<close>, \<open>Math.round\<close> (a tie goes up), \<open>Math.max\<close> and \<open>Math.min\<close> of two arguments.\<close>

fun js_floor :: "number \<Rightarrow> number" where
  "js_floor (Fin a) = Fin (of_int \<lfloor>a\<rfloor>)"
| "js_floor x = x"

fun js_round :: "number \<Rightarrow> number" where
  "js_round (Fin a) = Fin (of_int \<lfloor>a + 1 / 2\<rfloor>)"
| "js_round x = x"

fun js_max :: "number \<Rightarrow> number \<Rightarrow> number" where
  "js_max NaN _ = NaN"
| "js_max _ NaN = NaN"
| "js_max PInf _ = PInf"
| "js_max _ PInf = PInf"
| "js_max NInf y = y"
| "js_max x NInf = x"
| "js_max (Fin a) (Fin b) = Fin (max a b)"

fun js_min :: "number \<Rightarrow> number \<Rightarrow> number" where
  "js_min NaN _ = NaN"
| "js_min _ NaN = NaN"
| "js_min NInf _ = NInf"
| "js_min _ NInf = NInf"
| "js_min PInf y = y"
| "js_min x PInf = x"
| "js_min (Fin a) (Fin b) = Fin (min a b)"

text \<open>The comparison \<open><\<close>: false as soon as one side is NaN.\<close>

fun js_lt :: "number \<Rightarrow> number \<Rightarrow> bool" where
  "js_lt NaN _ = False"
| "js_lt _ NaN = False"
| "js_lt (Fin a) (Fin b) = (a < b)"
| "js_lt NInf NInf = False"
| "js_lt NInf _ = True"
| "js_lt _ NInf = False"
| "js_lt PInf _ = False"
| "js_lt _ PInf = True"

text \<open>A number in a condition: \<open>0\<close> and NaN are falsy.\<close>

fun truthy :: "number \<Rightarrow> bool" where
  "truthy (Fin a) = (a \<noteq> 0)"
| "truthy NaN = False"
| "truthy _ = True"

text \<open>
  Strings that the wrappers build, send and search (commands, paths, messages, tool
  output) are byte strings. \<open>s.includes(t)\<close> holds when \<open>t\<close> occurs in \<open>s\<close>.
\<close>

fun js_includes :: "string \<Rightarrow> string \<Rightarrow> bool" where
  "js_includes [] t = (t = [])"
| "js_includes (c # s) t = (take (length t) (c # s) = t \<or> js_includes s t)"

definition is_space :: "char \<Rightarrow> bool" where
  "is_space c = (c \<in> set [CHR 0x20, CHR 0x09, CHR 0x0A, CHR 0x0B, CHR 0x0C, CHR 0x0D])"

text \<open>\<open>s.trim()\<close>, for the white space of ASCII.\<close>

definition trim :: "string \<Rightarrow> string" where
  "trim s = rev (dropWhile is_space (rev (dropWhile is_space s)))"

text \<open>\<open>xs.join(sep)\<close>\<close>

fun join_with :: "string \<Rightarrow> string list \<Rightarrow> string" where
  "join_with sep [] = []"
| "join_with sep [x] = x"
| "join_with sep (x # y # ys) = x @ sep @ join_with sep (y # ys)"

text \<open>
  \<open>path.join\<close> of Node, in its POSIX flavour: the non-empty arguments are joined
  with the separator and the result is normalised. Normalising cuts the path at its
  separators, drops the empty segments and the segments \<open>.\<close>, lets a segment \<open>..\<close>
  remove the segment before it (above the start of a relative path it stays, above
  the root it is dropped), and keeps a leading and a trailing separator.
\<close>

fun path_segments :: "string \<Rightarrow> string list" where
  "path_segments [] = [[]]"
| "path_segments (c # cs) =
     (if c = CHR ''/'' then [] # path_segments cs
      else (case path_segments cs of
              [] \<Rightarrow> [[c]]
            | seg # segs \<Rightarrow> (c # seg) # segs))"

fun normalizeString :: "bool \<Rightarrow> string list \<Rightarrow> string list \<Rightarrow> string list" where
  "normalizeString allowAboveRoot [] res = res"
| "normalizeString allowAboveRoot (seg # segs) res =
     (if seg = [] \<or> seg = ''.'' then normalizeString allowAboveRoot segs res
      else if seg = ''..'' then
        (if res \<noteq> [] \<and> last res \<noteq> ''..''
         then normalizeString allowAboveRoot segs (butlast res)
         else if allowAboveRoot then normalizeString allowAboveRoot segs (res @ [''..''])
         else normalizeString allowAboveRoot segs res)
      else normalizeString allowAboveRoot segs (res @ [seg]))"

definition path_normalize :: "string \<Rightarrow> string" where
  "path_normalize path =
     (if path = [] then ''.''
      else
        let isAbsolute = (hd path = CHR ''/'');
            trailingSeparator = (last path = CHR ''/'');
            p = join_with ''/'' (normalizeString (\<not> isAbsolute) (path_segments path) [])
        in if p = [] then (if isAbsolute then ''/'' else if trailingSeparator then ''./'' else ''.'')
           else (if isAbsolute then ''/'' else []) @ p @ (if trailingSeparator then ''/'' else []))"

definition path_join :: "string list \<Rightarrow> string" where
  "path_join args =
     (let joined = join_with ''/'' (filter (\<lambda>arg. arg \<noteq> []) args)
      in if joined = [] then ''.'' else path_normalize joined)"

text \<open>
  \<open>Config\<close> is declared outside the sources at hand. The record has the fields that
  the wrappers read, with the types of their uses.
\<close>

record Config =
  runningInDocker :: bool
  devMode :: bool
  musicDirPath :: string
  packageDirPath :: string
  videosDirPath :: string
  concurrency :: number
  videoCacheSizeInBytes :: number
  whisperInstallPath :: string
  whisperModel :: string

section \<open>Remotion\<close>

text \<open>
  The options object of a \<open>renderMedia\<close> call. The progress callback only writes debug
  lines while the engine runs; the record keeps whether one is passed.
\<close>

record ('c, 'd) render_options =
  rm_codec :: string
  rm_composition :: 'c
  rm_serveUrl :: string
  rm_outputLocation :: string
  rm_inputProps :: 'd
  rm_onProgress :: bool
  rm_ffmpegExecutable :: "string option"
  rm_concurrency :: number
  rm_offthreadVideoCacheSizeInBytes :: number
  rm_pixelFormat :: "string option"
  rm_videoBitrate :: "string option"
  rm_audioBitrate :: "string option"

record 'd select_options =
  sc_serveUrl :: string
  sc_id :: string
  sc_inputProps :: 'd

record bundle_options =
  publicDir :: string
  entryPoint :: string

text \<open>
  The engines behind the Remotion wrapper: each external call answers from its
  arguments. \<open>ffmpeg_path\<close> is the \<open>path\<close> of \<open>@ffmpeg-installer/ffmpeg\<close>.
\<close>

record ('c, 'd) remotion_env =
  ensureBrowser :: "error option"
  rm_execSync :: "string \<Rightarrow> error + string"
  rm_bundle :: "bundle_options \<Rightarrow> error + string"
  selectComposition :: "'d select_options \<Rightarrow> error + 'c"
  renderMedia :: "('c, 'd) render_options \<Rightarrow> error option"
  ffmpeg_path :: string

text \<open>What a Remotion method can change: the log and the list of \<open>renderMedia\<close> calls made.\<close>

record ('c, 'd) rstate = base +
  render_calls :: "('c, 'd) render_options list"

record Remotion =
  bundled :: string
  r_config :: Config

definition COMPONENT_TO_RENDER :: string where
  "COMPONENT_TO_RENDER = ''ShortVideo''"

definition call_renderMedia ::
  "('c, 'd) remotion_env \<Rightarrow> ('c, 'd) render_options \<Rightarrow> (('c, 'd) rstate, unit) io" where
  "call_renderMedia env opts =
     (\<lambda>s. (case renderMedia env opts of None \<Rightarrow> Inr () | Some e \<Rightarrow> Inl e,
           s\<lparr>render_calls := render_calls s @ [opts]\<rparr>))"


definition fallbackCPURender ::
  "('c, 'd) remotion_env \<Rightarrow> Remotion \<Rightarrow> 'c \<Rightarrow> 'd \<Rightarrow> string \<Rightarrow> string \<Rightarrow>
     (('c, 'd) rstate, unit) io" where
  "fallbackCPURender env this composition data outputLocation id' =
     io_bind (logger Debug ''Using CPU fallback render method'' None) (\<lambda>_.
     call_renderMedia env
       \<lparr>rm_codec = ''h264'',
        rm_composition = composition,
        rm_serveUrl = bundled this,
        rm_outputLocation = outputLocation,
        rm_inputProps = data,
        rm_onProgress = False,
        rm_ffmpegExecutable = Some (ffmpeg_path env),
        rm_concurrency = js_max (Fin 1) (js_floor (js_div (concurrency (r_config this)) (Fin 2))),
        rm_offthreadVideoCacheSizeInBytes =
          js_floor (js_div (videoCacheSizeInBytes (r_config this)) (Fin 2)),
        rm_pixelFormat = None,
        rm_videoBitrate = None,
        rm_audioBitrate = None\<rparr>)"

definition render ::
  "('c, 'd) remotion_env \<Rightarrow> Remotion \<Rightarrow> 'd \<Rightarrow> string \<Rightarrow> (('c, 'd) rstate, unit) io" where
  "render env this data id' =
     io_bind
       (lift (selectComposition env
          \<lparr>sc_serveUrl = bundled this, sc_id = COMPONENT_TO_RENDER, sc_inputProps = data\<rparr>))
       (\<lambda>composition.
     io_bind (logger Debug ''Starting GPU-accelerated rendering with Remotion v4.0.286'' None) (\<lambda>_.
     let outputLocation = path_join [videosDirPath (r_config this), id' @ ''.mp4''] in
     try_catch
       (io_bind
          (call_renderMedia env
             \<lparr>rm_codec = ''h264'',
              rm_composition = composition,
              rm_serveUrl = bundled this,
              rm_outputLocation = outputLocation,
              rm_inputProps = data,
              rm_onProgress = True,
              rm_ffmpegExecutable = Some (ffmpeg_path env),
              rm_concurrency = concurrency (r_config this),
              rm_offthreadVideoCacheSizeInBytes = videoCacheSizeInBytes (r_config this),
              rm_pixelFormat = Some ''yuv420p'',
              rm_videoBitrate = Some ''8000k'',
              rm_audioBitrate = Some ''256k''\<rparr>) (\<lambda>_.
        logger Debug ''Video successfully rendered with GPU acceleration'' None))
       (\<lambda>error.
          io_bind (logger Err ''GPU rendering failed, attempting CPU fallback'' (Some error)) (\<lambda>_.
          io_bind (fallbackCPURender env this composition data outputLocation id') (\<lambda>_.
          logger Debug ''Video rendered with CPU fallback'' None)))))"

section \<open>FFMpeg\<close>

type_synonym bytes = "8 word list"

text \<open>What \<open>import("@ffmpeg-installer/ffmpeg")\<close> resolves to.\<close>

record installer =
  inst_path :: string
  inst_version :: string

text \<open>A fluent-ffmpeg command as the builder calls leave it.\<close>

record command =
  c_input :: bytes
  c_outputOptions :: "string list"
  c_audioCodec :: "string option"
  c_audioChannels :: "nat option"
  c_audioFrequency :: "nat option"
  c_audioBitrate :: "nat option"
  c_format :: "string option"

definition ffmpeg :: "bytes \<Rightarrow> command" where
  "ffmpeg input =
     \<lparr>c_input = input, c_outputOptions = [], c_audioCodec = None, c_audioChannels = None,
      c_audioFrequency = None, c_audioBitrate = None, c_format = None\<rparr>"

definition outputOptions :: "string list \<Rightarrow> command \<Rightarrow> command" where
  "outputOptions opts cmd = cmd\<lparr>c_outputOptions := c_outputOptions cmd @ opts\<rparr>"

definition audioCodec :: "string \<Rightarrow> command \<Rightarrow> command" where
  "audioCodec x cmd = cmd\<lparr>c_audioCodec := Some x\<rparr>"

definition audioChannels :: "nat \<Rightarrow> command \<Rightarrow> command" where
  "audioChannels n cmd = cmd\<lparr>c_audioChannels := Some n\<rparr>"

definition audioFrequency :: "nat \<Rightarrow> command \<Rightarrow> command" where
  "audioFrequency n cmd = cmd\<lparr>c_audioFrequency := Some n\<rparr>"

definition audioBitrate :: "nat \<Rightarrow> command \<Rightarrow> command" where
  "audioBitrate n cmd = cmd\<lparr>c_audioBitrate := Some n\<rparr>"

definition toFormat :: "string \<Rightarrow> command \<Rightarrow> command" where
  "toFormat x cmd = cmd\<lparr>c_format := Some x\<rparr>"

text \<open>
  The engines behind the FFMpeg wrapper. \<open>save\<close> runs a command to a file and ends
  with the event \<open>end\<close> (\<open>None\<close>) or the event \<open>error\<close> with its error.
\<close>

record ffmpeg_env =
  import_installer :: "error + installer"
  ff_execSync :: "string \<Rightarrow> error + string"
  save :: "command \<Rightarrow> string \<Rightarrow> error option"

text \<open>
  What an FFMpeg method can change: the log, the binary set by \<open>setFfmpegPath\<close>, the
  static field \<open>gpuAccelerated\<close>, which is \<open>false\<close> when the class is loaded, and the
  list of commands run so far, each with its output file.
\<close>

record fstate = base +
  ffmpegPath :: "string option"
  gpuAccelerated :: bool
  save_calls :: "(command \<times> string) list"

datatype FFMpeg = FFMpeg

definition setFfmpegPath :: "string \<Rightarrow> (fstate, unit) io" where
  "setFfmpegPath p = (\<lambda>s. (Inr (), s\<lparr>ffmpegPath := Some p\<rparr>))"

definition set_gpuAccelerated :: "bool \<Rightarrow> (fstate, unit) io" where
  "set_gpuAccelerated b = (\<lambda>s. (Inr (), s\<lparr>gpuAccelerated := b\<rparr>))"

definition get_gpuAccelerated :: "(fstate, bool) io" where
  "get_gpuAccelerated = (\<lambda>s. (Inr (gpuAccelerated s), s))"

definition call_save :: "ffmpeg_env \<Rightarrow> command \<Rightarrow> string \<Rightarrow> (fstate, error option) io" where
  "call_save env cmd file =
     (\<lambda>s. (Inr (save env cmd file), s\<lparr>save_calls := save_calls s @ [(cmd, file)]\<rparr>))"

definition FFMpeg_init :: "ffmpeg_env \<Rightarrow> (fstate, FFMpeg) io" where
  "FFMpeg_init env =
     io_bind (lift (import_installer env)) (\<lambda>ffmpegInstaller.
     io_bind (setFfmpegPath (inst_path ffmpegInstaller)) (\<lambda>_.
     io_bind
       (try_catch
          (io_bind (lift (ff_execSync env ''nvidia-smi --query-gpu=name --format=csv,noheader''))
             (\<lambda>out.
           let nvidiaCheck = trim out in
           if js_includes nvidiaCheck ''T4'' then
             io_bind (logger Info ''NVIDIA T4 GPU detected, enabling hardware acceleration'' None)
               (\<lambda>_.
             io_bind (set_gpuAccelerated True) (\<lambda>_.
             io_bind (lift (ff_execSync env (inst_path ffmpegInstaller @ '' -codecs'')))
               (\<lambda>codecs.
             if \<not> js_includes codecs ''nvenc'' then
               io_bind (logger Warn ''NVENC not available in FFmpeg build'' None) (\<lambda>_.
               set_gpuAccelerated False)
             else ret ())))
           else ret ()))
          (\<lambda>error. logger Warn ''GPU detection failed, using CPU'' (Some error))) (\<lambda>_.
     io_bind (logger Info ''FFmpeg initialized'' None) (\<lambda>_.
     ret FFMpeg))))"

definition getAudioCommand :: "bytes \<Rightarrow> (fstate, command) io" where
  "getAudioCommand input =
     io_bind get_gpuAccelerated (\<lambda>gpu.
     let command = ffmpeg input in
     if gpu then
       ret (outputOptions [''-hwaccel cuda'', ''-hwaccel_output_format cuda'', ''-c:a aac''] command)
     else ret command)"

text \<open>
  The promise of \<open>saveNormalizedAudio\<close> and of \<open>saveToMp3\<close> is settled by the event
  that ends the run: \<open>resolve\<close> on \<open>end\<close>, \<open>reject\<close> on \<open>error\<close>.
\<close>

definition saveNormalizedAudio :: "ffmpeg_env \<Rightarrow> bytes \<Rightarrow> string \<Rightarrow> (fstate, string) io" where
  "saveNormalizedAudio env audio outputPath =
     io_bind (logger Debug ''Normalizing audio for Whisper'' None) (\<lambda>_.
     io_bind (getAudioCommand audio) (\<lambda>command.
     io_bind
       (call_save env
          (toFormat ''wav'' (audioFrequency 16000 (audioChannels 1
             (audioCodec ''pcm_s16le'' command)))) outputPath) (\<lambda>event.
     case event of
       None \<Rightarrow>
         io_bind (logger Debug ''Audio normalization complete'' None) (\<lambda>_.
         ret outputPath)
     | Some err \<Rightarrow>
         io_bind (logger Err ''Error normalizing audio'' (Some err)) (\<lambda>_.
         throw err))))"

definition saveToMp3 :: "ffmpeg_env \<Rightarrow> bytes \<Rightarrow> string \<Rightarrow> (fstate, string) io" where
  "saveToMp3 env audio filePath =
     io_bind (getAudioCommand audio) (\<lambda>command0.
     let command = toFormat ''mp3'' (audioChannels 2 (audioBitrate 128
                     (audioCodec ''libmp3lame'' command0))) in
     io_bind get_gpuAccelerated (\<lambda>gpu.
     let command = (if gpu then outputOptions [''-c:a aac'', ''-b:a 128k''] command else command) in
     io_bind (call_save env command filePath) (\<lambda>event.
     case event of
       None \<Rightarrow>
         io_bind (logger Debug ''MP3 conversion complete'' None) (\<lambda>_.
         ret filePath)
     | Some err \<Rightarrow> throw err)))"

section \<open>Whisper\<close>

text \<open>
  A word of the transcription script's output and a caption. \<open>Caption\<close> is declared
  outside the sources at hand; the record has the fields that \<open>CreateCaption\<close> fills.
\<close>

record whisper_word =
  w_text :: string
  w_start :: number
  w_end :: number

record Caption =
  cap_text :: string
  startMs :: number
  endMs :: number

text \<open>
  The engines behind the Whisper wrapper. \<open>JSON_parse\<close> stands for \<open>JSON.parse\<close>
  followed by the cast to an array of words: it answers \<open>Inl\<close> where parsing throws
  or the parsed value is not a list of words.
\<close>

record whisper_env =
  ensureDir :: "string \<Rightarrow> error option"
  writeFile :: "string \<Rightarrow> string \<Rightarrow> error option"
  wh_existsSync :: "string \<Rightarrow> bool"
  wh_execSync :: "string \<Rightarrow> error + string"
  JSON_parse :: "string \<Rightarrow> error + whisper_word list"

record Whisper =
  w_config :: Config

definition nl :: string where
  "nl = [CHR 0x0A]"

definition dq :: string where
  "dq = [CHR 0x22]"

text \<open>The transcription script of \<open>Whisper.ts\<close>, with the model and the audio path filled in.\<close>

definition pythonScript :: "string \<Rightarrow> string \<Rightarrow> string" where
  "pythonScript model audioPath = join_with nl
     ['''',
      ''from faster_whisper import WhisperModel'',
      ''import json'',
      ''import sys'',
      '''',
      ''model_size = '' @ dq @ model @ dq,
      ''audio_path = '' @ dq @ audioPath @ dq,
      '''',
      ''# Run on GPU with FP16'',
      ''model = WhisperModel(model_size, device='' @ dq @ ''cuda'' @ dq @
        '', compute_type='' @ dq @ ''float16'' @ dq @ '')'',
      '''',
      ''segments, info = model.transcribe(audio_path, word_timestamps=True)'',
      '''',
      ''output = []'',
      ''for segment in segments:'',
      ''    for word in segment.words:'',
      ''        output.append({'',
      ''            '' @ dq @ ''text'' @ dq @ '': word.word,'',
      ''            '' @ dq @ ''start'' @ dq @ '': word.start * 1000,  # convert to ms'',
      ''            '' @ dq @ ''end'' @ dq @ '': word.end * 1000      # convert to ms'',
      ''        })'',
      '''',
      ''print(json.dumps(output))'',
      ''      '']"

definition CreateCaption :: "whisper_env \<Rightarrow> Whisper \<Rightarrow> string \<Rightarrow> ('z base_scheme, Caption list) io" where
  "CreateCaption env this audioPath =
     io_bind (logger Debug ''Starting to transcribe audio with GPU acceleration'' None) (\<lambda>_.
     try_catch
       (let scriptPath = path_join [whisperInstallPath (w_config this), ''transcribe_gpu.py''];
            script = pythonScript (whisperModel (w_config this)) audioPath in
        io_bind (attempt (writeFile env scriptPath script)) (\<lambda>_.
        io_bind (lift (wh_execSync env (''python '' @ scriptPath))) (\<lambda>output.
        io_bind (lift (JSON_parse env output)) (\<lambda>words.
        io_bind (logger Debug ''Transcription finished, creating captions'' None) (\<lambda>_.
        let captions = map (\<lambda>word.
              \<lparr>cap_text = w_text word,
               startMs = js_round (w_start word),
               endMs = js_round (w_end word)\<rparr>) words in
        io_bind (logger Debug ''Captions created'' None) (\<lambda>_.
        ret captions))))))
       (\<lambda>error.
          io_bind (logger Err ''Failed to transcribe audio'' (Some error)) (\<lambda>_.
          throw error)))"

text \<open>
  The other revision of the wrapper (\<open>unnamed/part_002\<close>): it makes the directory first,
  escapes backslashes in the audio path, checks in the script that the audio file
  exists, and checks that the script file was written.
\<close>

definition escape_backslashes :: "string \<Rightarrow> string" where
  "escape_backslashes s = concat (map (\<lambda>c. if c = CHR 0x5C then [c, c] else [c]) s)"

definition pythonScript2 :: "string \<Rightarrow> string \<Rightarrow> string" where
  "pythonScript2 model audioPath = join_with nl
     ['''',
      ''from faster_whisper import WhisperModel'',
      ''import json'',
      ''import sys'',
      ''import os'',
      '''',
      ''model_size = '' @ dq @ model @ dq,
      ''audio_path = '' @ dq @ escape_backslashes audioPath @ dq @ ''  # Handle path escaping'',
      '''',
      ''# Verify audio file exists'',
      ''if not os.path.exists(audio_path):'',
      ''    raise FileNotFoundError(f'' @ dq @ ''Audio file not found at {audio_path}'' @ dq @ '')'',
      '''',
      ''# Run on GPU with FP16'',
      ''model = WhisperModel(model_size, device='' @ dq @ ''cuda'' @ dq @
        '', compute_type='' @ dq @ ''float16'' @ dq @ '')'',
      '''',
      ''segments, info = model.transcribe(audio_path, word_timestamps=True)'',
      '''',
      ''output = []'',
      ''for segment in segments:'',
      ''    for word in segment.words:'',
      ''        output.append({'',
      ''            '' @ dq @ ''text'' @ dq @ '': word.word,'',
      ''            '' @ dq @ ''start'' @ dq @ '': word.start * 1000,  # convert to ms'',
      ''            '' @ dq @ ''end'' @ dq @ '': word.end * 1000       # convert to ms'',
      ''        })'',
      '''',
      ''print(json.dumps(output))'',
      ''      '']"

definition CreateCaption2 :: "whisper_env \<Rightarrow> Whisper \<Rightarrow> string \<Rightarrow> ('z base_scheme, Caption list) io" where
  "CreateCaption2 env this audioPath =
     io_bind (logger Debug ''Starting to transcribe audio with GPU acceleration'' None) (\<lambda>_.
     try_catch
       (io_bind (attempt (ensureDir env (whisperInstallPath (w_config this)))) (\<lambda>_.
        let scriptPath = path_join [whisperInstallPath (w_config this), ''transcribe_gpu.py''];
            script = pythonScript2 (whisperModel (w_config this)) audioPath in
        io_bind (attempt (writeFile env scriptPath script)) (\<lambda>_.
        io_bind
          (if \<not> wh_existsSync env scriptPath
           then throw (Error (''Failed to create transcription script at '' @ scriptPath))
           else ret ()) (\<lambda>_.
        io_bind (lift (wh_execSync env (''python '' @ scriptPath))) (\<lambda>output.
        io_bind (lift (JSON_parse env output)) (\<lambda>words.
        io_bind (logger Debug ''Transcription finished, creating captions'' None) (\<lambda>_.
        let captions = map (\<lambda>word.
              \<lparr>cap_text = w_text word,
               startMs = js_round (w_start word),
               endMs = js_round (w_end word)\<rparr>) words in
        io_bind (logger Debug ''Captions created'' None) (\<lambda>_.
        ret captions))))))))
       (\<lambda>error.
          io_bind (logger Err ''Failed to transcribe audio'' (Some error)) (\<lambda>_.
          throw error)))"

text \<open>
  The property of the caption list in the words of the specification: as many
  captions as words, in the same order, the text unchanged, each time rounded to the
  nearest integer. An infinity or NaN has no nearest integer; rounding leaves it.
\<close>

fun nearest_integer :: "number \<Rightarrow> number \<Rightarrow> bool" where
  "nearest_integer (Fin q) (Fin r) = (of_int \<lfloor>r\<rfloor> = r \<and> \<bar>r - q\<bar> \<le> 1 / 2)"
| "nearest_integer (Fin q) y = False"
| "nearest_integer x y = (x = y)"

definition captions_match :: "whisper_word list \<Rightarrow> Caption list \<Rightarrow> bool" where
  "captions_match ws caps \<longleftrightarrow>
     length caps = length ws \<and>
     (\<forall>i < length ws.
        cap_text (caps ! i) = w_text (ws ! i) \<and>
        nearest_integer (w_start (ws ! i)) (startMs (caps ! i)) \<and>
        nearest_integer (w_end (ws ! i)) (endMs (caps ! i)))"

section \<open>Kokoro\<close>

definition sq :: string where
  "sq = [CHR 0x27]"

definition MODEL_NAME :: string where
  "MODEL_NAME = ''Kokoro-82M-v1.0''"

text \<open>The paths depend on \<open>process.cwd()\<close>, the argument of each.\<close>

definition MODEL_DIR :: "string \<Rightarrow> string" where
  "MODEL_DIR cwd = path_join [cwd, ''models'']"

definition MODEL_PATH :: "string \<Rightarrow> string" where
  "MODEL_PATH cwd = path_join [MODEL_DIR cwd, MODEL_NAME]"

definition MODEL_FILE :: "string \<Rightarrow> string" where
  "MODEL_FILE cwd = path_join [MODEL_PATH cwd, ''model.onnx'']"

definition CONFIG_FILE :: "string \<Rightarrow> string" where
  "CONFIG_FILE cwd = path_join [MODEL_PATH cwd, ''config.json'']"

text \<open>
  The configuration object is untyped in the source. The model keeps the one field
  that the wrapper reads: \<open>sample_rate\<close>, a number or missing. \<open>JSON.parse\<close> of the
  configuration file gives \<open>null\<close> or a value with or without that field.
\<close>

record kokoro_config =
  sample_rate :: "number option"

datatype parsed = JNull | JConfig kokoro_config

text \<open>A missing value in a condition is falsy, and in arithmetic it is NaN.\<close>

fun truthy_field :: "number option \<Rightarrow> bool" where
  "truthy_field None = False"
| "truthy_field (Some x) = truthy x"

fun ToNumber :: "number option \<Rightarrow> number" where
  "ToNumber None = NaN"
| "ToNumber (Some x) = x"

record tensor =
  t_type :: string
  t_data :: "64 word list"
  t_dims :: "nat list"

text \<open>
  The \<open>outputs\<close> of a run, untyped in the source: the \<open>audio\<close> entry may be missing,
  and so may its \<open>data\<close>, an array of float samples.
\<close>

record audio_tensor =
  a_data :: "number list option"

record outputs =
  o_audio :: "audio_tensor option"

record session_options =
  executionProviders :: "string list"
  graphOptimizationLevel :: string
  enableCpuMemArena :: bool
  enableMemPattern :: bool
  logSeverityLevel :: nat

text \<open>
  The engines behind the Kokoro wrapper. A session is a handle \<open>'h\<close>; a run answers
  from the handle, the input tensor, the providers asked for and the engine's own
  state \<open>'e\<close>, which it may change. The answer \<open>None\<close> is a missing \<open>outputs\<close>.
\<close>

record ('h, 'e) kokoro_env =
  cwd :: string
  kk_execSync :: "string \<Rightarrow> error + string"
  kk_existsSync :: "string \<Rightarrow> bool"
  mkdirSync :: "string \<Rightarrow> error option"
  readFileSync :: "string \<Rightarrow> error + string"
  kk_JSON_parse :: "string \<Rightarrow> error + parsed"
  getAvailableProviders :: "error + string list"
  create_session :: "string \<Rightarrow> session_options \<Rightarrow> error + 'h"
  session_run :: "'h \<Rightarrow> tensor \<Rightarrow> string list \<Rightarrow> 'e \<Rightarrow> (error + outputs option) \<times> 'e"

text \<open>What a Kokoro method can change: the log, the engine's state, the list of runs made.\<close>

record 'e kstate = base +
  engine :: 'e
  run_calls :: "tensor list"

record 'h Kokoro =
  session :: "'h option"
  k_config :: kokoro_config

record generated =
  g_audio :: bytes
  g_audioLength :: number

definition call_run ::
  "('h, 'e) kokoro_env \<Rightarrow> 'h \<Rightarrow> tensor \<Rightarrow> string list \<Rightarrow> ('e kstate, outputs option) io" where
  "call_run env h t providers =
     (\<lambda>s. case session_run env h t providers (engine s) of
             (r, e') \<Rightarrow> (r, s\<lparr>engine := e', run_calls := run_calls s @ [t]\<rparr>))"

text \<open>
  The input text is a sequence of UTF-16 code units, or missing (\<open>undefined\<close>).
  \<open>text.length\<close> throws on a missing text.
\<close>

type_synonym js_text = "16 word list option"

definition text_length :: "js_text \<Rightarrow> error + nat" where
  "text_length text =
     (case text of
        None \<Rightarrow> Inl (TypeError (''Cannot read properties of undefined (reading '' @ sq @
                  ''length'' @ sq @ '')''))
      | Some t \<Rightarrow> Inr (length t))"

definition preprocessText :: "js_text \<Rightarrow> string \<Rightarrow> error + 64 word list" where
  "preprocessText text voice =
     (case text of
        None \<Rightarrow> Inl (Error ''Input text cannot be empty'')
      | Some t \<Rightarrow>
          if t = [] \<or> length t = 0 then Inl (Error ''Input text cannot be empty'')
          else Inr (map (\<lambda>c. ucast c) t))"

text \<open>
  \<open>DataView.setInt16\<close>: the number is converted as by ToInt16 (truncated towards zero,
  then taken modulo \<open>2 ^ 16\<close>; NaN and the infinities give 0) and its two bytes are
  stored at the offset, which must lie inside the buffer.
\<close>

definition ToInt16 :: "number \<Rightarrow> 16 word" where
  "ToInt16 x = (case x of Fin a \<Rightarrow> word_of_int (if 0 \<le> a then \<lfloor>a\<rfloor> else \<lceil>a\<rceil>) | _ \<Rightarrow> 0)"

definition setInt16 :: "bytes \<Rightarrow> nat \<Rightarrow> number \<Rightarrow> bool \<Rightarrow> error + bytes" where
  "setInt16 buf byteOffset x littleEndian =
     (if length buf < byteOffset + 2
      then Inl (RangeError ''Offset is outside the bounds of the DataView'')
      else
        let w = ToInt16 x;
            lo = (ucast w :: 8 word);
            hi = (ucast (drop_bit 8 w) :: 8 word)
        in Inr (if littleEndian
                then buf[byteOffset := lo, byteOffset + 1 := hi]
                else buf[byteOffset := hi, byteOffset + 1 := lo]))"

text \<open>\<open>DataView.getInt16\<close>, the reading that goes with it.\<close>

definition getInt16 :: "bytes \<Rightarrow> nat \<Rightarrow> bool \<Rightarrow> error + int" where
  "getInt16 buf byteOffset littleEndian =
     (if length buf < byteOffset + 2
      then Inl (RangeError ''Offset is outside the bounds of the DataView'')
      else
        let b0 = buf ! byteOffset;
            b1 = buf ! (byteOffset + 1);
            lo = (if littleEndian then b0 else b1);
            hi = (if littleEndian then b1 else b0)
        in Inr (sint (or (push_bit 8 (ucast hi)) (ucast lo) :: 16 word)))"

text \<open>The \<open>forEach\<close> of \<open>postprocessAudio\<close>, from the given index on.\<close>

fun write_samples :: "number list \<Rightarrow> nat \<Rightarrow> bytes \<Rightarrow> error + bytes" where
  "write_samples [] index buf = Inr buf"
| "write_samples (x # rest) index buf =
     (case setInt16 buf (index * 2)
             (js_min (Fin 32767) (js_max (Fin (- 32768)) (js_mul x (Fin 32767)))) True of
        Inl e \<Rightarrow> Inl e
      | Inr buf' \<Rightarrow> write_samples rest (index + 1) buf')"

definition postprocessAudio :: "outputs \<Rightarrow> ('z base_scheme, bytes) io" where
  "postprocessAudio outs =
     try_catch
       (case o_audio outs of
          None \<Rightarrow> throw (TypeError (''Cannot read properties of undefined (reading '' @ sq @
                    ''data'' @ sq @ '')''))
        | Some a \<Rightarrow>
            (case a_data a of
               None \<Rightarrow> throw (Error ''Empty audio data received'')
             | Some audioData \<Rightarrow>
                 if length audioData = 0 then throw (Error ''Empty audio data received'')
                 else lift (write_samples audioData 0 (replicate (length audioData * 2) 0))))
       (\<lambda>error.
          io_bind (logger Err ''Audio postprocessing failed'' (Some error)) (\<lambda>_.
          throw error))"

definition generate ::
  "('h, 'e) kokoro_env \<Rightarrow> 'h Kokoro \<Rightarrow> js_text \<Rightarrow> string \<Rightarrow> ('e kstate, generated) io" where
  "generate env this text voice =
     io_bind (logger Debug ''Generating audio with Kokoro on GPU'' None) (\<lambda>_.
     try_catch
       (case session this of
          None \<Rightarrow> throw (Error ''Inference session not initialized'')
        | Some h \<Rightarrow>
            io_bind (lift (preprocessText text voice)) (\<lambda>inputIds.
            let inputTensor =
                  \<lparr>t_type = ''int64'', t_data = inputIds, t_dims = [1, length inputIds]\<rparr> in
            io_bind (call_run env h inputTensor [''cuda'']) (\<lambda>outputs.
            case outputs of
              None \<Rightarrow> throw (Error ''Invalid model outputs'')
            | Some outs \<Rightarrow>
                if o_audio outs = None then throw (Error ''Invalid model outputs'')
                else
                  io_bind (postprocessAudio outs) (\<lambda>audioData.
                  io_bind (lift (text_length text)) (\<lambda>textLength.
                  io_bind (logger Debug ''Audio generated successfully'' None) (\<lambda>_.
                  ret \<lparr>g_audio = audioData,
                       g_audioLength =
                         js_div (Fin (of_nat (length audioData)))
                           (js_mul (ToNumber (sample_rate (k_config this))) (Fin 2))\<rparr>))))))
       (\<lambda>error.
          io_bind (lift (text_length text)) (\<lambda>textLength.
          io_bind (logger Err ''Failed to generate audio'' (Some error)) (\<lambda>_.
          throw error))))"

text \<open>
  The sample values in the words of the specification: a finite sample scaled by
  32767 and clamped into the range from -32768 to 32767; and what a 16-bit integer
  can hold of it, the value truncated towards zero. The infinities clamp to the
  ends of the range, and NaN is stored as 0.
\<close>

definition scaled_clamped :: "real \<Rightarrow> real" where
  "scaled_clamped v = max (- 32768) (min 32767 (v * 32767))"

definition trunc_zero :: "real \<Rightarrow> int" where
  "trunc_zero x = (if 0 \<le> x then \<lfloor>x\<rfloor> else \<lceil>x\<rceil>)"

fun stored_sample :: "number \<Rightarrow> int" where
  "stored_sample (Fin v) = trunc_zero (scaled_clamped v)"
| "stored_sample PInf = 32767"
| "stored_sample NInf = - 32768"
| "stored_sample NaN = 0"

text \<open>A value of a float tensor: a number of binary32, an infinity or NaN.\<close>

fun is_sample :: "number \<Rightarrow> bool" where
  "is_sample (Fin v) = is_float32 v"
| "is_sample _ = True"

definition verifyFile :: "('h, 'e) kokoro_env \<Rightarrow> string \<Rightarrow> ('z base_scheme, unit) io" where
  "verifyFile env p =
     (if \<not> kk_existsSync env p then throw (Error (''Model file not found: '' @ p))
      else logger Debug (''Found model file: '' @ p) None)"

definition CUDA_not_available :: string where
  "CUDA_not_available =
     ''CUDA not available. Check:'' @ nl @
     ''1. NVIDIA drivers are installed'' @ nl @
     ''2. CUDA toolkit is installed'' @ nl @
     ''3. You have a compatible GPU'' @ nl @
     ''4. onnxruntime-node-gpu package is installed''"

text \<open>
  \<open>Kokoro.init\<close>. The source numbers the stages of its \<open>try\<close> block in comments; each
  stage is a definition here, under the name of its comment, and \<open>Kokoro_init\<close> runs
  them in order inside the \<open>try\<close>.
\<close>

definition dependency_installation :: "('h, 'e) kokoro_env \<Rightarrow> ('z base_scheme, unit) io" where
  "dependency_installation env =
     io_bind (logger Debug ''Checking/installing onnxruntime-node...'' None) (\<lambda>_.
     io_bind
       (try_catch
          (io_bind (lift (kk_execSync env ''npm install onnxruntime-node@latest --save''))
             (\<lambda>_. ret ()))
          (\<lambda>installError.
             io_bind (logger Warn ''Fallback to global installation'' (Some installError))
               (\<lambda>_.
             io_bind (lift (kk_execSync env ''npm install -g onnxruntime-node@latest''))
               (\<lambda>_. ret ())))) (\<lambda>_.
     logger Debug ''onnxruntime-node installation verified'' None))"

definition model_directory_setup :: "('h, 'e) kokoro_env \<Rightarrow> ('z base_scheme, unit) io" where
  "model_directory_setup env =
     (if \<not> kk_existsSync env (MODEL_DIR (cwd env)) then
        io_bind (logger Debug (''Creating models directory at '' @ MODEL_DIR (cwd env)) None)
          (\<lambda>_.
        attempt (mkdirSync env (MODEL_DIR (cwd env))))
      else ret ())"

definition model_file_verification :: "('h, 'e) kokoro_env \<Rightarrow> ('z base_scheme, unit) io" where
  "model_file_verification env =
     io_bind (verifyFile env (MODEL_FILE (cwd env))) (\<lambda>_.
     verifyFile env (CONFIG_FILE (cwd env)))"

definition config_loading :: "('h, 'e) kokoro_env \<Rightarrow> ('z base_scheme, kokoro_config) io" where
  "config_loading env =
     io_bind (lift (readFileSync env (CONFIG_FILE (cwd env)))) (\<lambda>content.
     io_bind (lift (kk_JSON_parse env content)) (\<lambda>parsed.
     case parsed of
       JNull \<Rightarrow> throw (TypeError (''Cannot read properties of null (reading '' @ sq @
                  ''sample_rate'' @ sq @ '')''))
     | JConfig config \<Rightarrow>
         if \<not> truthy_field (sample_rate config)
         then throw (Error ''Invalid config file: missing sample_rate'')
         else ret config))"

definition gpu_availability_check :: "('h, 'e) kokoro_env \<Rightarrow> ('z base_scheme, unit) io" where
  "gpu_availability_check env =
     io_bind (lift (getAvailableProviders env)) (\<lambda>providers.
     io_bind (logger Debug (''Available ONNX providers: '' @ join_with '', '' providers) None)
       (\<lambda>_.
     if ''cuda'' \<notin> set providers then throw (Error CUDA_not_available) else ret ()))"

definition session_initialization :: "('h, 'e) kokoro_env \<Rightarrow> ('z base_scheme, 'h) io" where
  "session_initialization env =
     io_bind (logger Debug ''Initializing ONNX session with CUDA...'' None) (\<lambda>_.
     lift (create_session env (MODEL_FILE (cwd env))
       \<lparr>executionProviders = [''cuda''], graphOptimizationLevel = ''all'',
        enableCpuMemArena = True, enableMemPattern = True, logSeverityLevel = 1\<rparr>))"

definition Kokoro_init :: "('h, 'e) kokoro_env \<Rightarrow> ('z base_scheme, 'h Kokoro) io" where
  "Kokoro_init env =
     try_catch
       (io_bind (dependency_installation env) (\<lambda>_.
        io_bind (model_directory_setup env) (\<lambda>_.
        io_bind (model_file_verification env) (\<lambda>_.
        io_bind (config_loading env) (\<lambda>config.
        io_bind (gpu_availability_check env) (\<lambda>_.
        io_bind (session_initialization env) (\<lambda>session.
        io_bind (logger Debug ''Kokoro TTS successfully initialized with GPU support'' None)
          (\<lambda>_.
        ret \<lparr>session = Some session, k_config = config\<rparr>))))))))
       (\<lambda>error.
          io_bind (logger Err ''Kokoro initialization failed'' (Some error)) (\<lambda>_.
          throw (Error (''Failed to initialize Kokoro: '' @ message error))))"

section \<open>Example runs\<close>

text \<open>A Remotion engine whose GPU render fails and whose plain render succeeds.\<close>

definition demo_config :: "number \<Rightarrow> number \<Rightarrow> Config" where
  "demo_config c v =
     \<lparr>runningInDocker = False, devMode = False, musicDirPath = ''/app/music'',
      packageDirPath = ''/app'', videosDirPath = ''/data/videos'', concurrency = c,
      videoCacheSizeInBytes = v, whisperInstallPath = ''/data/whisper'',
      whisperModel = ''medium''\<rparr>"

definition demo_remotion_env :: "(unit, unit) remotion_env" where
  "demo_remotion_env =
     \<lparr>ensureBrowser = None,
      rm_execSync = (\<lambda>cmd. Inl (Error ''Command failed'')),
      rm_bundle = (\<lambda>opts. Inr ''/tmp/bundle''),
      selectComposition = (\<lambda>opts. Inr ()),
      renderMedia = (\<lambda>opts. if rm_pixelFormat opts = None then None
                               else Some (Error ''GPU render failed'')),
      ffmpeg_path = ''/usr/bin/ffmpeg''\<rparr>"

definition demo_remotion :: "number \<Rightarrow> number \<Rightarrow> Remotion" where
  "demo_remotion c v = \<lparr>bundled = ''/tmp/bundle'', r_config = demo_config c v\<rparr>"

definition rstate0 :: "(unit, unit) rstate" where
  "rstate0 = \<lparr>logged = [], render_calls = []\<rparr>"

text \<open>
  FFMpeg engines. In the first, \<open>nvidia-smi\<close> reports a T4 and listing the codecs
  throws. In the second there is no \<open>nvidia-smi\<close>; a run to a \<open>.wav\<close> file ends well,
  any other run ends with an error.
\<close>

definition demo_installer :: installer where
  "demo_installer = \<lparr>inst_path = ''/opt/ffmpeg/ffmpeg'', inst_version = ''1.1.0''\<rparr>"

definition t4_env :: ffmpeg_env where
  "t4_env =
     \<lparr>import_installer = Inr demo_installer,
      ff_execSync = (\<lambda>cmd.
        if cmd = ''nvidia-smi --query-gpu=name --format=csv,noheader''
        then Inr (''Tesla T4'' @ nl)
        else Inl (Error ''spawnSync /bin/sh ENOENT'')),
      save = (\<lambda>cmd file. None)\<rparr>"

definition cpu_env :: ffmpeg_env where
  "cpu_env =
     \<lparr>import_installer = Inr demo_installer,
      ff_execSync = (\<lambda>cmd. Inl (Error ''nvidia-smi: not found'')),
      save = (\<lambda>cmd file. if c_format cmd = Some ''wav'' then None
                           else Some (Error ''ffmpeg exited with code 1''))\<rparr>"

definition fstate0 :: fstate where
  "fstate0 = \<lparr>logged = [], ffmpegPath = None, gpuAccelerated = False, save_calls = []\<rparr>"

text \<open>
  Whisper engines: one that transcribes two words, one without a Python interpreter.
\<close>

definition demo_words :: "whisper_word list" where
  "demo_words =
     [\<lparr>w_text = '' Hello'', w_start = Fin 0, w_end = Fin (8405 / 10)\<rparr>,
      \<lparr>w_text = '' world'', w_start = Fin (8405 / 10), w_end = Fin (12349 / 10)\<rparr>]"

definition whisper_ok_env :: whisper_env where
  "whisper_ok_env =
     \<lparr>ensureDir = (\<lambda>dir. None),
      writeFile = (\<lambda>file content. None),
      wh_existsSync = (\<lambda>file. True),
      wh_execSync = (\<lambda>cmd. Inr ''[...]''),
      JSON_parse = (\<lambda>out. Inr demo_words)\<rparr>"


definition demo_whisper :: Whisper where
  "demo_whisper = \<lparr>w_config = demo_config (Fin 4) (Fin 1000)\<rparr>"

definition base0 :: base where
  "base0 = \<lparr>logged = []\<rparr>"

text \<open>
  A Kokoro engine with CUDA whose runs answer three samples, and the same engine
  without CUDA among its providers.
\<close>

definition demo_outputs :: outputs where
  "demo_outputs = \<lparr>o_audio = Some \<lparr>a_data = Some [Fin (1 / 2), Fin (- 2), NaN]\<rparr>\<rparr>"

definition demo_kokoro_env :: "(nat, nat) kokoro_env" where
  "demo_kokoro_env =
     \<lparr>cwd = ''/app'',
      kk_execSync = (\<lambda>cmd. Inr []),
      kk_existsSync = (\<lambda>file. True),
      mkdirSync = (\<lambda>dir. None),
      readFileSync = (\<lambda>file. Inr ''{sample_rate: 24000}''),
      kk_JSON_parse = (\<lambda>content. Inr (JConfig \<lparr>sample_rate = Some (Fin 24000)\<rparr>)),
      getAvailableProviders = Inr [''cuda'', ''cpu''],
      create_session = (\<lambda>file opts. Inr 7),
      session_run = (\<lambda>h t providers e. (Inr (Some demo_outputs), e + 1))\<rparr>"

definition nocuda_kokoro_env :: "(nat, nat) kokoro_env" where
  "nocuda_kokoro_env = demo_kokoro_env\<lparr>getAvailableProviders := Inr [''cpu'']\<rparr>"

definition demo_kokoro :: "nat Kokoro" where
  "demo_kokoro = \<lparr>session = Some 7, k_config = \<lparr>sample_rate = Some (Fin 24000)\<rparr>\<rparr>"


definition kstate0 :: "nat kstate" where
  "kstate0 = \<lparr>logged = [], engine = 0, run_calls = []\<rparr>"

section \<open>Proofs\<close>

lemmas io_defs = ret_def throw_def lift_def attempt_def io_bind_def try_catch_def logger_def

lemmas remotion_demo_defs = demo_config_def demo_remotion_env_def demo_remotion_def rstate0_def

text \<open>The outcome of a composed action, without its state.\<close>

lemma fst_ret: "fst (ret x s) = Inr x"
  by (simp add: ret_def)

lemma fst_throw: "fst (throw e s) = Inl e"
  by (simp add: throw_def)

lemma fst_lift: "fst (lift r s) = r"
  by (simp add: lift_def)

lemma fst_attempt: "fst (attempt r s) = (case r of None \<Rightarrow> Inr () | Some e \<Rightarrow> Inl e)"
  by (simp add: attempt_def)

lemma fst_logger: "fst (logger l m e s) = Inr ()"
  by (simp add: logger_def)

lemma fst_io_bind:
  "fst (io_bind m f s) = (case fst (m s) of Inl e \<Rightarrow> Inl e | Inr x \<Rightarrow> fst (f x (snd (m s))))"
  by (simp add: io_bind_def split: prod.splits sum.splits)

lemma fst_try_catch:
  "fst (try_catch m h s) = (case fst (m s) of Inl e \<Rightarrow> fst (h e (snd (m s))) | Inr x \<Rightarrow> Inr x)"
  by (simp add: try_catch_def split: prod.splits sum.splits)

lemmas fst_io = fst_ret fst_throw fst_lift fst_attempt fst_logger fst_io_bind fst_try_catch

subsection \<open>Paths\<close>

text \<open>Joined paths: plain segments, a trailing separator, \<open>..\<close>, empty segments, the root.\<close>

lemma path_join_examples:
  "path_join [''/app'', ''models''] = ''/app/models''"
  "path_join [''/'', ''models''] = ''/models''"
  "path_join [''/data/videos/'', ''v1.mp4''] = ''/data/videos/v1.mp4''"
  "path_join [''videos'', ''../v1.mp4''] = ''v1.mp4''"
  "path_join [''..'', ''a'', [], ''b/''] = ''../a/b/''"
  "path_join [[], []] = ''.''"
  by code_simp+

subsection \<open>Rounding\<close>

text \<open>The exponent of a positive number.\<close>

lemma ilog2_bounds:
  assumes "0 < x"
  shows "2 powi (ilog2 x) \<le> x \<and> x < 2 powi (ilog2 x + 1)"
proof (cases "1 \<le> x")
  case True
  define n where "n = \<lfloor>x\<rfloor>"
  have n: "0 < n" "of_int n \<le> x" "x < of_int n + 1"
    using True by (simp_all add: n_def)
  define k where "k = nat (bitlen n - 1)"
  have bl: "1 \<le> bitlen n"
    using n(1) by (simp add: bitlen_alt_def)
  from bitlen_bounds [OF n(1)] have b: "2 ^ k \<le> n" "n < 2 ^ nat (bitlen n)"
    by (simp_all add: k_def)
  have nk: "nat (bitlen n) = Suc k"
    using bl by (simp add: k_def)
  have il: "ilog2 x = int k"
    using True bl by (simp add: ilog2_def n_def k_def)
  have "(2::real) ^ k \<le> of_int n"
    using b(1) by (metis of_int_le_iff of_int_numeral of_int_power)
  then have lo: "2 ^ k \<le> x"
    using n(2) by linarith
  have "n + 1 \<le> 2 ^ Suc k"
    using b(2) nk by simp
  then have "(of_int (n + 1) :: real) \<le> 2 ^ Suc k"
    by (metis of_int_le_iff of_int_numeral of_int_power)
  then have hi: "x < 2 ^ Suc k"
    using n(3) by simp
  show ?thesis
    using lo hi by (simp add: il power_int_add_1)
next
  case False
  define y where "y = 1 / x"
  have y: "1 < y" "0 < y"
    using False assms by (simp_all add: y_def)
  define n where "n = \<lceil>y\<rceil>"
  have n: "2 \<le> n" "y \<le> of_int n" "of_int n - 1 < y"
    using y by (simp_all add: n_def le_ceiling_iff) linarith+
  define k where "k = nat (bitlen (n - 1))"
  have pos: "0 < n - 1"
    using n(1) by simp
  have bl: "1 \<le> bitlen (n - 1)"
    using pos by (simp add: bitlen_alt_def)
  from bitlen_bounds [OF pos] have b: "2 ^ nat (bitlen (n - 1) - 1) \<le> n - 1" "n - 1 < 2 ^ k"
    by (simp_all add: k_def)
  have k1: "nat (bitlen (n - 1) - 1) = k - 1" "0 < k"
    using bl by (simp_all add: k_def)
  have il: "ilog2 x = - int k"
    using False bl by (simp add: ilog2_def n_def k_def y_def)
  have "n \<le> 2 ^ k"
    using b(2) by simp
  then have "(of_int n :: real) \<le> 2 ^ k"
    by (metis of_int_le_iff of_int_numeral of_int_power)
  then have "y \<le> 2 ^ k"
    using n(2) by linarith
  then have lo: "1 / 2 ^ k \<le> x"
    using assms y by (simp add: y_def field_simps)
  have "(2::real) ^ (k - 1) \<le> of_int (n - 1)"
    using b(1) k1 by (metis of_int_le_iff of_int_numeral of_int_power)
  then have "2 ^ (k - 1) < y"
    using n(3) by simp
  then have hi: "x < 1 / 2 ^ (k - 1)"
    using assms y by (simp add: y_def field_simps)
  have p1: "(2::real) powi (- int k) = 1 / 2 ^ k"
    by (simp add: power_int_minus field_simps)
  have e: "- int k + 1 = - int (k - 1)"
    using k1(2) by simp
  have p2: "(2::real) powi (- int k + 1) = 1 / 2 ^ (k - 1)"
    unfolding e by (simp add: power_int_minus field_simps)
  have "2 powi ilog2 x \<le> x"
    unfolding il p1 by (rule lo)
  moreover have "x < 2 powi (ilog2 x + 1)"
    unfolding il p2 by (rule hi)
  ultimately show ?thesis ..
qed

lemma ilog2_unique:
  assumes "0 < x" "2 powi k \<le> x" "x < 2 powi (k + 1)"
  shows "ilog2 x = k"
proof (rule ccontr)
  assume ne: "ilog2 x \<noteq> k"
  from ilog2_bounds [OF assms(1)] have b: "2 powi (ilog2 x) \<le> x" "x < 2 powi (ilog2 x + 1)"
    by simp_all
  show False
  proof (cases "ilog2 x < k")
    case True
    then have "(2::real) powi (ilog2 x + 1) \<le> 2 powi k"
      by (intro power_int_increasing) simp_all
    with b(2) assms(2) show False by linarith
  next
    case False
    with ne have "k + 1 \<le> ilog2 x" by simp
    then have "(2::real) powi (k + 1) \<le> 2 powi (ilog2 x)"
      by (intro power_int_increasing) simp_all
    with b(1) assms(3) show False by linarith
  qed
qed

lemma round_half_even_int: "round_half_even (of_int k) = k"
  by (simp add: round_half_even_def)


lemma round_half_even_nonpos: "y \<le> 0 \<Longrightarrow> round_half_even y \<le> 0"
proof -
  assume y: "y \<le> 0"
  have f: "of_int \<lfloor>y\<rfloor> \<le> y" "y < of_int \<lfloor>y\<rfloor> + 1"
    by linarith+
  show ?thesis
  proof (cases "\<lfloor>y\<rfloor> = 0")
    case True
    with y f have "y = 0" by simp
    then show ?thesis by (simp add: round_half_even_def)
  next
    case False
    with y have "\<lfloor>y\<rfloor> \<le> - 1"
      by (smt (verit) floor_le_zero le_floor_iff of_int_0)
    then show ?thesis
      by (auto simp add: round_half_even_def Let_def)
  qed
qed

lemma round_half_even_nonneg: "0 \<le> y \<Longrightarrow> 0 \<le> round_half_even y"
  by (auto simp add: round_half_even_def Let_def)

lemma ulp_exponent_ge: "emin \<le> ulp_exponent p emin x"
  by (simp add: ulp_exponent_def)

lemma ulp_exponent_upper:
  assumes "x \<noteq> 0"
  shows "\<bar>x\<bar> < 2 powi (ulp_exponent p emin x + int p)"
proof -
  from assms have pos: "0 < \<bar>x\<bar>" by simp
  have "ilog2 \<bar>x\<bar> + 1 \<le> ulp_exponent p emin x + int p"
    by (simp add: ulp_exponent_def)
  then have "(2::real) powi (ilog2 \<bar>x\<bar> + 1) \<le> 2 powi (ulp_exponent p emin x + int p)"
    by (intro power_int_increasing) simp_all
  with ilog2_bounds [OF pos] show ?thesis by linarith
qed

lemma ulp_exponent_lower:
  assumes "x \<noteq> 0" "emin < ulp_exponent p emin x"
  shows "2 powi (ulp_exponent p emin x + int p - 1) \<le> \<bar>x\<bar>"
proof -
  from assms(1) have pos: "0 < \<bar>x\<bar>" by simp
  from assms(2) have "ulp_exponent p emin x + int p - 1 = ilog2 \<bar>x\<bar>"
    by (simp add: ulp_exponent_def max_def split: if_splits)
  with ilog2_bounds [OF pos] show ?thesis by simp
qed

text \<open>A number of the format is left as it is.\<close>

lemma nearest_repr:
  assumes x: "x = of_int m * 2 powi e" and m: "\<bar>m\<bar> < 2 ^ p" and e: "emin \<le> e"
  shows "nearest p emin x = x"
proof (cases "x = 0")
  case True
  then show ?thesis by (simp add: nearest_def)
next
  case False
  define E where "E = ulp_exponent p emin x"
  from False have pos: "0 < \<bar>x\<bar>" by simp
  have "\<bar>x\<bar> = of_int \<bar>m\<bar> * 2 powi e"
    by (simp add: x abs_mult)
  also have "\<dots> < 2 ^ p * 2 powi e"
  proof -
    from m have "(of_int \<bar>m\<bar> :: real) < 2 ^ p"
      by (metis of_int_less_iff of_int_numeral of_int_power)
    then show ?thesis by simp
  qed
  also have "\<dots> = 2 powi (e + int p)"
    by (simp add: power_int_add)
  finally have up: "\<bar>x\<bar> < 2 powi (e + int p)" .
  have "ilog2 \<bar>x\<bar> < e + int p"
  proof (rule ccontr)
    assume "\<not> ilog2 \<bar>x\<bar> < e + int p"
    then have "(2::real) powi (e + int p) \<le> 2 powi (ilog2 \<bar>x\<bar>)"
      by (intro power_int_increasing) simp_all
    with ilog2_bounds [OF pos] up show False by linarith
  qed
  with e have Ee: "E \<le> e"
    by (simp add: E_def ulp_exponent_def)
  define d where "d = nat (e - E)"
  have eE: "e = E + int d"
    using Ee by (simp add: d_def)
  have "x / 2 powi E = of_int m * (2 powi e / 2 powi E)"
    by (simp add: x)
  also have "2 powi e / 2 powi E = (2::real) ^ d"
    by (simp add: eE power_int_add)
  finally have q: "x / 2 powi E = of_int (m * 2 ^ d)"
    by simp
  have "of_int (round_half_even (x / 2 powi E)) * 2 powi E = x"
    unfolding q round_half_even_int by (simp add: x eE power_int_add)
  with False show ?thesis
    by (simp add: nearest_def Let_def E_def [symmetric])
qed

text \<open>The nearest number of the format is a multiple of the unit in the last place.\<close>

lemma nearest_form:
  "\<exists>m. nearest p emin x = of_int m * 2 powi (ulp_exponent p emin x)"
proof (cases "x = 0")
  case True
  then show ?thesis by (intro exI [of _ 0]) (simp add: nearest_def)
next
  case False
  then show ?thesis
    by (intro exI [of _ "round_half_even (x / 2 powi (ulp_exponent p emin x))"])
      (simp add: nearest_def Let_def)
qed


lemma nearest_nonpos: "x \<le> 0 \<Longrightarrow> nearest p emin x \<le> 0"
proof -
  assume x: "x \<le> 0"
  have "x / 2 powi (ulp_exponent p emin x) \<le> 0"
    using x by (simp add: divide_nonpos_pos)
  then have "round_half_even (x / 2 powi (ulp_exponent p emin x)) \<le> 0"
    by (rule round_half_even_nonpos)
  then have "real_of_int (round_half_even (x / 2 powi (ulp_exponent p emin x))) *
      2 powi (ulp_exponent p emin x) \<le> 0"
    by (simp add: mult_le_0_iff)
  then show ?thesis
    by (simp add: nearest_def Let_def)
qed

lemma nearest_nonneg: "0 \<le> x \<Longrightarrow> 0 \<le> nearest p emin x"
proof -
  assume x: "0 \<le> x"
  then have "0 \<le> round_half_even (x / 2 powi (ulp_exponent p emin x))"
    by (intro round_half_even_nonneg) simp
  then show ?thesis
    by (simp add: nearest_def Let_def)
qed

lemma round_half_even_le: "y \<le> of_int n \<Longrightarrow> round_half_even y \<le> n"
proof -
  assume y: "y \<le> of_int n"
  then have f: "\<lfloor>y\<rfloor> \<le> n"
    by (simp add: floor_le_iff)
  show ?thesis
  proof (cases "\<lfloor>y\<rfloor> = n")
    case True
    with y have "y = of_int n"
      using of_int_floor_le [of y] by simp
    then show ?thesis by (simp add: round_half_even_int)
  next
    case False
    with f have "\<lfloor>y\<rfloor> + 1 \<le> n" by simp
    then show ?thesis
      by (auto simp add: round_half_even_def Let_def)
  qed
qed

lemma round_half_even_ge: "of_int n \<le> y \<Longrightarrow> n \<le> round_half_even y"
proof -
  assume "of_int n \<le> y"
  then have "n \<le> \<lfloor>y\<rfloor>"
    by (simp add: le_floor_iff)
  then show ?thesis
    by (auto simp add: round_half_even_def Let_def)
qed

text \<open>Rounding does not step over a power of two.\<close>

lemma ilog2_le:
  assumes "0 < x" "x \<le> 2 powi k"
  shows "ilog2 x \<le> k"
proof (rule ccontr)
  assume "\<not> ilog2 x \<le> k"
  then have "(2::real) powi (k + 1) \<le> 2 powi (ilog2 x)"
    by (intro power_int_increasing) simp_all
  moreover have "(2::real) powi k < 2 powi (k + 1)"
    by (intro power_int_strict_increasing) simp_all
  ultimately show False
    using ilog2_bounds [OF assms(1)] assms(2) by linarith
qed

lemma ulp_exponent_le:
  assumes "x \<noteq> 0" "\<bar>x\<bar> \<le> 2 powi k" "emin \<le> k" "0 < p"
  shows "ulp_exponent p emin x \<le> k"
proof -
  from assms(1) have "0 < \<bar>x\<bar>" by simp
  from ilog2_le [OF this assms(2)] assms(3,4) show ?thesis
    by (simp add: ulp_exponent_def)
qed

lemma nearest_le_power:
  assumes "x \<le> 2 powi k" "emin \<le> k" "0 < p"
  shows "nearest p emin x \<le> 2 powi k"
proof (cases "x \<le> 0")
  case True
  then have "nearest p emin x \<le> 0" by (rule nearest_nonpos)
  moreover have "(0::real) \<le> 2 powi k" by simp
  ultimately show ?thesis by linarith
next
  case False
  define E where "E = ulp_exponent p emin x"
  from False assms(1) have "x \<noteq> 0" "\<bar>x\<bar> \<le> 2 powi k" by simp_all
  from ulp_exponent_le [OF this assms(2,3)] have Ek: "E \<le> k"
    by (simp add: E_def)
  define d where "d = nat (k - E)"
  have k: "k = E + int d"
    using Ek by (simp add: d_def)
  have pw: "(2::real) powi k = 2 ^ d * 2 powi E"
    by (simp add: k power_int_add)
  have "x / 2 powi E \<le> 2 ^ d"
    using assms(1) by (simp add: pw pos_divide_le_eq)
  then have "x / 2 powi E \<le> of_int (2 ^ d)" by simp
  then have "round_half_even (x / 2 powi E) \<le> 2 ^ d"
    by (rule round_half_even_le)
  then have "real_of_int (round_half_even (x / 2 powi E)) \<le> 2 ^ d"
    by (metis of_int_le_iff of_int_numeral of_int_power)
  then have "real_of_int (round_half_even (x / 2 powi E)) * 2 powi E \<le> 2 ^ d * 2 powi E"
    by (intro mult_right_mono) simp_all
  with \<open>x \<noteq> 0\<close> show ?thesis
    by (simp add: nearest_def Let_def E_def [symmetric] pw)
qed

lemma nearest_ge_power:
  assumes "- (2 powi k) \<le> x" "emin \<le> k" "0 < p"
  shows "- (2 powi k) \<le> nearest p emin x"
proof (cases "0 \<le> x")
  case True
  then have "0 \<le> nearest p emin x" by (rule nearest_nonneg)
  moreover have "(0::real) \<le> 2 powi k" by simp
  ultimately show ?thesis by linarith
next
  case False
  define E where "E = ulp_exponent p emin x"
  from False assms(1) have "x \<noteq> 0" "\<bar>x\<bar> \<le> 2 powi k" by simp_all
  from ulp_exponent_le [OF this assms(2,3)] have Ek: "E \<le> k"
    by (simp add: E_def)
  define d where "d = nat (k - E)"
  have k: "k = E + int d"
    using Ek by (simp add: d_def)
  have pw: "(2::real) powi k = 2 ^ d * 2 powi E"
    by (simp add: k power_int_add)
  have "- (2 ^ d) \<le> x / 2 powi E"
    using assms(1) by (simp add: pw pos_le_divide_eq)
  then have "of_int (- (2 ^ d)) \<le> x / 2 powi E" by simp
  then have "- (2 ^ d) \<le> round_half_even (x / 2 powi E)"
    by (rule round_half_even_ge)
  then have "- (2 ^ d) \<le> real_of_int (round_half_even (x / 2 powi E))"
    by (metis of_int_le_iff of_int_minus of_int_numeral of_int_power)
  then have "- (2 ^ d) * 2 powi E \<le> real_of_int (round_half_even (x / 2 powi E)) * 2 powi E"
    by (intro mult_right_mono) simp_all
  with \<open>x \<noteq> 0\<close> show ?thesis
    by (simp add: nearest_def Let_def E_def [symmetric] pw)
qed

text \<open>Below the largest power of two the rounded value is finite.\<close>

lemma round_binary_finite:
  assumes "\<bar>x\<bar> \<le> 2 powi k" "emin \<le> k" "k < emax" "0 < p"
  shows "round_binary p emin emax x = Fin (nearest p emin x)"
proof -
  have lt: "(2::real) powi k < 2 powi emax"
    using assms(3) by (intro power_int_strict_increasing) simp_all
  from assms(1) have "x \<le> 2 powi k" "- (2 powi k) \<le> x" by linarith+
  from nearest_le_power [OF this(1) assms(2,4)] nearest_ge_power [OF this(2) assms(2,4)] lt
  show ?thesis
    by (simp add: round_binary_def Let_def)
qed

lemma round_binary_repr:
  assumes "x = of_int m * 2 powi e" "\<bar>m\<bar> < 2 ^ p" "emin \<le> e" "\<bar>x\<bar> < 2 powi emax"
  shows "round_binary p emin emax x = Fin x"
proof -
  from assms(4) have "\<not> 2 powi emax \<le> x" "\<not> x \<le> - (2 powi emax)"
    by linarith+
  with nearest_repr [OF assms(1-3)] show ?thesis
    by (simp add: round_binary_def Let_def)
qed

text \<open>A number that rounding leaves as it is has the form of the format.\<close>

lemma round_binary_fixed:
  assumes "round_binary p emin emax x = Fin x"
  shows "\<exists>m. x = of_int m * 2 powi (ulp_exponent p emin x) \<and> \<bar>m\<bar> < 2 ^ p \<and>
           \<bar>x\<bar> < 2 powi emax"
proof (cases "x = 0")
  case True
  then show ?thesis by (intro exI [of _ 0]) simp
next
  case False
  define E where "E = ulp_exponent p emin x"
  from assms have fx: "nearest p emin x = x" and
    fin: "\<not> 2 powi emax \<le> x" "\<not> x \<le> - (2 powi emax)"
    by (auto simp add: round_binary_def Let_def split: if_splits)
  from nearest_form [of p emin x] obtain m where "nearest p emin x = real_of_int m * 2 powi E"
    unfolding E_def by blast
  with fx have y: "real_of_int m * 2 powi E = x"
    by simp
  from ulp_exponent_upper [OF False, of p emin] have "\<bar>x\<bar> < 2 powi (E + int p)"
    by (simp add: E_def)
  then have "\<bar>real_of_int m * 2 powi E\<bar> < 2 ^ p * 2 powi E"
    by (simp add: y power_int_add mult.commute)
  then have "(of_int \<bar>m\<bar> :: real) < 2 ^ p"
    by (simp add: abs_mult)
  then have "\<bar>m\<bar> < 2 ^ p"
    by (metis of_int_less_iff of_int_numeral of_int_power)
  with y fin show ?thesis
    by (intro exI [of _ m]) (auto simp add: E_def)
qed


subsection \<open>Numbers of binary64 and of binary32\<close>

lemma real_of_int_abs_less: "\<bar>m\<bar> < 2 ^ n \<Longrightarrow> \<bar>real_of_int m\<bar> < 2 ^ n"
proof -
  assume "\<bar>m\<bar> < 2 ^ n"
  then have "real_of_int \<bar>m\<bar> < real_of_int (2 ^ n)"
    by (simp only: of_int_less_iff)
  then show ?thesis by simp
qed

lemma round64_ratio:
  assumes "\<bar>m\<bar> < 2 ^ 53" "k \<le> 1074"
  shows "round64 (of_int m / 2 ^ k) = Fin (of_int m / 2 ^ k)"
proof -
  have x: "real_of_int m / 2 ^ k = of_int m * 2 powi (- int k)"
    by (simp add: power_int_minus divide_inverse)
  have "\<bar>real_of_int m / 2 ^ k\<bar> = \<bar>real_of_int m\<bar> / 2 ^ k"
    by (simp add: abs_divide)
  also have "\<dots> \<le> \<bar>real_of_int m\<bar> / 1"
    by (intro divide_left_mono) simp_all
  also have "\<dots> = \<bar>real_of_int m\<bar>"
    by simp
  also have "\<dots> < 2 ^ 53"
    using assms(1) by (rule real_of_int_abs_less)
  also have "\<dots> < (2::real) powi 1024"
    by simp
  finally have "\<bar>real_of_int m / 2 ^ k\<bar> < 2 powi 1024" .
  with assms show ?thesis
    unfolding round64_def by (intro round_binary_repr [OF x]) simp_all
qed

lemma round64_int: "\<bar>m\<bar> < 2 ^ 53 \<Longrightarrow> round64 (of_int m) = Fin (of_int m)"
  using round64_ratio [of m 0] by simp

lemma is_double_form:
  assumes "is_double x"
  shows "\<exists>m. x = of_int m * 2 powi (ulp_exponent 53 (- 1074) x) \<and> \<bar>m\<bar> < 2 ^ 53 \<and>
           \<bar>x\<bar> < 2 powi 1024"
  using assms unfolding is_double_def round64_def by (rule round_binary_fixed)

lemma is_double_half:
  assumes "is_double q" "1 \<le> \<bar>q\<bar>"
  shows "is_double (q / 2)"
proof -
  define E where "E = ulp_exponent 53 (- 1074) q"
  from is_double_form [OF assms(1)] obtain m where
    q: "q = of_int m * 2 powi E" and m: "\<bar>m\<bar> < 2 ^ 53" and fin: "\<bar>q\<bar> < 2 powi 1024"
    by (auto simp add: E_def)
  from assms(2) have pos: "0 < \<bar>q\<bar>" by simp
  have "0 \<le> ilog2 \<bar>q\<bar>"
  proof (rule ccontr)
    assume "\<not> 0 \<le> ilog2 \<bar>q\<bar>"
    then have "(2::real) powi (ilog2 \<bar>q\<bar> + 1) \<le> 2 powi 0"
      by (intro power_int_increasing) simp_all
    with ilog2_bounds [OF pos] assms(2) show False by simp
  qed
  then have E: "- 1074 \<le> E - 1"
    by (simp add: E_def ulp_exponent_def)
  have h: "q / 2 = of_int m * 2 powi (E - 1)"
    by (simp add: q power_int_diff)
  have "\<bar>q / 2\<bar> < 2 powi 1024"
    using fin by simp
  with m E show ?thesis
    unfolding is_double_def round64_def by (intro round_binary_repr [OF h]) simp_all
qed


text \<open>The product of a binary32 number and 32767 is a binary64 number.\<close>

lemma float32_times_32767:
  assumes "is_float32 v"
  shows "round64 (v * 32767) = Fin (v * 32767)"
proof -
  define E where "E = ulp_exponent 24 (- 149) v"
  from assms obtain m where
    v: "v = of_int m * 2 powi E" and m: "\<bar>m\<bar> < 2 ^ 24" and fin: "\<bar>v\<bar> < 2 powi 128"
    unfolding is_float32_def E_def using round_binary_fixed by blast
  have E: "- 1074 \<le> E"
    using ulp_exponent_ge [of "- 149" 24 v] by (simp add: E_def)
  have h: "v * 32767 = of_int (m * 32767) * 2 powi E"
    by (simp add: v)
  have m': "\<bar>m * 32767\<bar> < 2 ^ 53"
    using m by (simp add: abs_mult)
  have "\<bar>v * 32767\<bar> < 2 powi 128 * 32767"
    using fin by (simp add: abs_mult)
  also have "\<dots> < (2::real) powi 1024"
    by simp
  finally have "\<bar>v * 32767\<bar> < 2 powi 1024" .
  with m' E show ?thesis
    unfolding round64_def by (intro round_binary_repr [OF h]) simp_all
qed


text \<open>The rounded value of a number between two powers of two.\<close>

lemma round64_eval:
  assumes "2 powi k \<le> \<bar>x\<bar>" "\<bar>x\<bar> < 2 powi (k + 1)" "- 1022 \<le> k" "k \<le> 1022"
  shows "round64 x = Fin (of_int (round_half_even (x / 2 powi (k - 52))) * 2 powi (k - 52))"
proof -
  have pos: "0 < \<bar>x\<bar>"
    using assms(1) by (smt (verit) zero_less_power_int)
  from ilog2_unique [OF pos assms(1,2)] assms(3)
  have E: "ulp_exponent 53 (- 1074) x = k - 52"
    by (simp add: ulp_exponent_def)
  from pos have nz: "x \<noteq> 0" by simp
  from assms(2) have "\<bar>x\<bar> \<le> 2 powi (k + 1)" by simp
  from round_binary_finite [OF this, of "- 1074" 1024 53] assms(3,4)
  have "round64 x = Fin (nearest 53 (- 1074) x)"
    by (simp add: round64_def)
  with nz E show ?thesis
    by (simp add: nearest_def Let_def)
qed

subsection \<open>Remotion\<close>

text \<open>Half the concurrency, floored, and 1 at least.\<close>

lemma half_floor_small:
  assumes "q \<le> 1"
  shows "js_max (Fin 1) (js_floor (js_div (Fin q) (Fin 2))) = Fin 1"
proof -
  have "q / 2 \<le> 2 powi (- 1)"
    using assms by (simp add: power_int_minus)
  from nearest_le_power [OF this, of "- 1074" 53]
  have le: "nearest 53 (- 1074) (q / 2) \<le> 1 / 2"
    by (simp add: power_int_minus)
  have big: "(1::real) < 2 powi 1024"
    by simp
  have fl: "\<lfloor>nearest 53 (- 1074) (q / 2)\<rfloor> \<le> 0"
    using le by (simp add: floor_le_iff)
  then have "real_of_int \<lfloor>nearest 53 (- 1074) (q / 2)\<rfloor> \<le> 0"
    by simp
  with le big show ?thesis
    by (simp add: round64_def round_binary_def Let_def max_def)
qed

lemma half_floor_lt:
  assumes "is_double q"
  shows "js_lt (js_max (Fin 1) (js_floor (js_div (Fin q) (Fin 2)))) (Fin q) \<longleftrightarrow> 1 < q"
proof (cases "1 < q")
  case True
  then have "is_double (q / 2)"
    using assms by (intro is_double_half) simp_all
  then have d: "round64 (q / 2) = Fin (q / 2)"
    by (simp add: is_double_def)
  have "of_int \<lfloor>q / 2\<rfloor> \<le> q / 2" by (rule of_int_floor_le)
  with True show ?thesis
    by (auto simp add: d max_def)
next
  case False
  then have "q \<le> 1" by simp
  from half_floor_small [OF this] False show ?thesis
    by simp
qed

lemma half_floor_value:
  assumes "is_double q"
  shows "js_max (Fin 1) (js_floor (js_div (Fin q) (Fin 2))) = Fin (max 1 (of_int \<lfloor>q / 2\<rfloor>))"
proof (cases "1 < q")
  case True
  then have "is_double (q / 2)"
    using assms by (intro is_double_half) simp_all
  then have d: "round64 (q / 2) = Fin (q / 2)"
    by (simp add: is_double_def)
  show ?thesis
    by (simp add: d)
next
  case False
  then have "\<lfloor>q / 2\<rfloor> \<le> 0"
    by (simp add: floor_le_iff)
  then have "real_of_int \<lfloor>q / 2\<rfloor> \<le> 0"
    by simp
  then have "max 1 (real_of_int \<lfloor>q / 2\<rfloor>) = 1"
    by simp
  with False half_floor_small [of q] show ?thesis
    by simp
qed

text \<open>Numbers of the example runs.\<close>

lemma round64_examples:
  "round64 2 = Fin 2"
  "round64 (1 / 2) = Fin (1 / 2)"
  "round64 (1001 / 2) = Fin (1001 / 2)"
  "round64 500 = Fin 500"
  using round64_int [of 2] round64_ratio [of 1 1] round64_ratio [of 1001 1] round64_int [of 500]
  by simp_all

lemma is_double_4: "is_double 4"
  unfolding is_double_def using round64_int [of 4] by simp

text \<open>The \<open>renderMedia\<close> calls that one \<open>render\<close> adds to the list, in order.\<close>

lemma render_calls_cases:
  "render_calls (snd (render env this data id' s)) =
     render_calls s @
     (case selectComposition env
             \<lparr>sc_serveUrl = bundled this, sc_id = COMPONENT_TO_RENDER, sc_inputProps = data\<rparr> of
        Inl e \<Rightarrow> []
      | Inr c \<Rightarrow>
         (let out = path_join [videosDirPath (r_config this), id' @ ''.mp4''];
              gpu = \<lparr>rm_codec = ''h264'', rm_composition = c, rm_serveUrl = bundled this,
                rm_outputLocation = out, rm_inputProps = data, rm_onProgress = True,
                rm_ffmpegExecutable = Some (ffmpeg_path env),
                rm_concurrency = concurrency (r_config this),
                rm_offthreadVideoCacheSizeInBytes = videoCacheSizeInBytes (r_config this),
                rm_pixelFormat = Some ''yuv420p'', rm_videoBitrate = Some ''8000k'',
                rm_audioBitrate = Some ''256k''\<rparr>
          in case renderMedia env gpu of
               None \<Rightarrow> [gpu]
             | Some e \<Rightarrow>
                 [gpu,
                  \<lparr>rm_codec = ''h264'', rm_composition = c, rm_serveUrl = bundled this,
                   rm_outputLocation = out, rm_inputProps = data, rm_onProgress = False,
                   rm_ffmpegExecutable = Some (ffmpeg_path env),
                   rm_concurrency =
                     js_max (Fin 1) (js_floor (js_div (concurrency (r_config this)) (Fin 2))),
                   rm_offthreadVideoCacheSizeInBytes =
                     js_floor (js_div (videoCacheSizeInBytes (r_config this)) (Fin 2)),
                   rm_pixelFormat = None, rm_videoBitrate = None,
                   rm_audioBitrate = None\<rparr>]))"
  by (simp add: render_def fallbackCPURender_def call_renderMedia_def io_defs Let_def
         split: option.splits sum.splits)

text \<open>
  C1. Let \<open>new\<close> be the \<open>renderMedia\<close> calls that a \<open>render\<close> makes once the composition
  is selected. The first call carries the configured concurrency and cache size. If it
  throws, there is exactly one more call, on the same composition and output location,
  with concurrency \<open>max(1, floor(concurrency / 2))\<close> and cache size
  \<open>floor(videoCacheSizeInBytes / 2)\<close>. If it succeeds, there is no other call.
\<close>

theorem render_fallback:
  assumes sel: "selectComposition env
       \<lparr>sc_serveUrl = bundled this, sc_id = COMPONENT_TO_RENDER, sc_inputProps = data\<rparr> = Inr c"
    and new: "new = drop (length (render_calls s)) (render_calls (snd (render env this data id' s)))"
  shows "render_calls (snd (render env this data id' s)) = render_calls s @ new \<and>
     rm_composition (new ! 0) = c \<and>
     rm_outputLocation (new ! 0) = path_join [videosDirPath (r_config this), id' @ ''.mp4''] \<and>
     rm_concurrency (new ! 0) = concurrency (r_config this) \<and>
     rm_offthreadVideoCacheSizeInBytes (new ! 0) = videoCacheSizeInBytes (r_config this) \<and>
     (renderMedia env (new ! 0) = None \<longrightarrow> length new = 1) \<and>
     (renderMedia env (new ! 0) \<noteq> None \<longrightarrow>
        length new = 2 \<and>
        rm_composition (new ! 1) = rm_composition (new ! 0) \<and>
        rm_outputLocation (new ! 1) = rm_outputLocation (new ! 0) \<and>
        rm_concurrency (new ! 1) =
          js_max (Fin 1) (js_floor (js_div (concurrency (r_config this)) (Fin 2))) \<and>
        rm_offthreadVideoCacheSizeInBytes (new ! 1) =
          js_floor (js_div (videoCacheSizeInBytes (r_config this)) (Fin 2)))"
  unfolding new render_calls_cases
  by (simp add: sel Let_def split: option.splits)

theorem render_fallback_witness:
  "selectComposition demo_remotion_env
     \<lparr>sc_serveUrl = bundled (demo_remotion (Fin 4) (Fin 1001)), sc_id = COMPONENT_TO_RENDER,
      sc_inputProps = ()\<rparr> = Inr () \<and>
   renderMedia demo_remotion_env
     (render_calls (snd (render demo_remotion_env (demo_remotion (Fin 4) (Fin 1001)) ()
        ''v1'' rstate0)) ! 0) \<noteq> None \<and>
   length (render_calls (snd (render demo_remotion_env (demo_remotion (Fin 4) (Fin 1001)) ()
        ''v1'' rstate0))) = 2 \<and>
   rm_concurrency (render_calls (snd (render demo_remotion_env (demo_remotion (Fin 4) (Fin 1001)) ()
        ''v1'' rstate0)) ! 1) = Fin 2 \<and>
   rm_offthreadVideoCacheSizeInBytes (render_calls (snd (render demo_remotion_env
        (demo_remotion (Fin 4) (Fin 1001)) () ''v1'' rstate0)) ! 1) = Fin 500"
proof -
  have sel: "selectComposition demo_remotion_env
     \<lparr>sc_serveUrl = bundled (demo_remotion (Fin 4) (Fin 1001)), sc_id = COMPONENT_TO_RENDER,
      sc_inputProps = ()\<rparr> = Inr ()"
    by (simp add: remotion_demo_defs)
  show ?thesis
    using render_fallback [OF sel refl, of "''v1''" rstate0]
    by (simp add: render_calls_cases remotion_demo_defs Let_def round64_examples)
qed

text \<open>
  C4, as stated: the concurrency of the fallback call is strictly less than the
  concurrency of the failed first call, for every configuration. With
  \<open>concurrency = 1\<close> the first render fails, the fallback runs, and both calls have
  concurrency 1.
\<close>

theorem fallback_concurrency_not_reduced:
  "length (render_calls (snd (render demo_remotion_env (demo_remotion (Fin 1) (Fin 1000)) ()
      ''v1'' rstate0))) = 2 \<and>
   rm_concurrency (render_calls (snd (render demo_remotion_env (demo_remotion (Fin 1) (Fin 1000)) ()
      ''v1'' rstate0)) ! 0) = Fin 1 \<and>
   rm_concurrency (render_calls (snd (render demo_remotion_env (demo_remotion (Fin 1) (Fin 1000)) ()
      ''v1'' rstate0)) ! 1) = Fin 1 \<and>
   \<not> js_lt
      (rm_concurrency (render_calls (snd (render demo_remotion_env
         (demo_remotion (Fin 1) (Fin 1000)) () ''v1'' rstate0)) ! 1))
      (rm_concurrency (render_calls (snd (render demo_remotion_env
         (demo_remotion (Fin 1) (Fin 1000)) () ''v1'' rstate0)) ! 0))"
  by (simp add: render_calls_cases remotion_demo_defs Let_def round64_examples)

text \<open>
  C4, amended. Whenever a \<open>render\<close> makes two \<open>renderMedia\<close> calls, the concurrency
  of the second call is strictly less than that of the first exactly when the
  configured concurrency is a finite number greater than 1. The second call has
  concurrency \<open>max(1, floor(concurrency / 2))\<close> for a finite configured concurrency (so 1
  for every value up to 1), 1 for \<open>-Infinity\<close>, and the configured value itself for
  \<open>Infinity\<close> and NaN.
\<close>

theorem fallback_concurrency_reduced:
  assumes two: "length (render_calls (snd (render env this data id' s))) =
      length (render_calls s) + 2"
    and num: "is_number (concurrency (r_config this))"
  shows "(js_lt
       (rm_concurrency (render_calls (snd (render env this data id' s)) !
          (length (render_calls s) + 1)))
       (rm_concurrency (render_calls (snd (render env this data id' s)) !
          length (render_calls s)))
      \<longleftrightarrow> (\<exists>q. concurrency (r_config this) = Fin q \<and> 1 < q)) \<and>
     rm_concurrency (render_calls (snd (render env this data id' s)) !
          (length (render_calls s) + 1)) =
       (case concurrency (r_config this) of
          Fin q \<Rightarrow> Fin (max 1 (of_int \<lfloor>q / 2\<rfloor>))
        | PInf \<Rightarrow> PInf
        | NInf \<Rightarrow> Fin 1
        | NaN \<Rightarrow> NaN)"
proof -
  let ?c = "concurrency (r_config this)"
  let ?calls = "render_calls (snd (render env this data id' s))"
  from two have first: "rm_concurrency (?calls ! length (render_calls s)) = ?c"
    and second: "rm_concurrency (?calls ! (length (render_calls s) + 1)) =
      js_max (Fin 1) (js_floor (js_div ?c (Fin 2)))"
    by (auto simp add: render_calls_cases Let_def nth_append split: sum.splits option.splits)
  show ?thesis
  proof (cases ?c)
    case (Fin q)
    with num have d: "is_double q" by simp
    from half_floor_lt [OF d] half_floor_value [OF d] show ?thesis
      unfolding first second Fin by simp
  next
    case PInf
    show ?thesis
      unfolding first second PInf by simp
  next
    case NInf
    show ?thesis
      unfolding first second NInf by simp
  next
    case NaN
    show ?thesis
      unfolding first second NaN by simp
  qed
qed

theorem fallback_concurrency_reduced_witness:
  "length (render_calls (snd (render demo_remotion_env (demo_remotion (Fin 4) (Fin 1000)) ()
      ''v1'' rstate0))) = length (render_calls rstate0) + 2 \<and>
   is_number (concurrency (r_config (demo_remotion (Fin 4) (Fin 1000)))) \<and>
   js_lt
      (rm_concurrency (render_calls (snd (render demo_remotion_env
         (demo_remotion (Fin 4) (Fin 1000)) () ''v1'' rstate0)) ! 1))
      (rm_concurrency (render_calls (snd (render demo_remotion_env
         (demo_remotion (Fin 4) (Fin 1000)) () ''v1'' rstate0)) ! 0)) \<and>
   rm_concurrency (render_calls (snd (render demo_remotion_env
         (demo_remotion (Fin 4) (Fin 1000)) () ''v1'' rstate0)) ! 1) = Fin 2"
proof -
  have two: "length (render_calls (snd (render demo_remotion_env
      (demo_remotion (Fin 4) (Fin 1000)) () ''v1'' rstate0))) = length (render_calls rstate0) + 2"
    by (simp add: render_calls_cases remotion_demo_defs Let_def)
  have c: "concurrency (r_config (demo_remotion (Fin 4) (Fin 1000))) = Fin 4"
    by (simp add: remotion_demo_defs)
  have num: "is_number (concurrency (r_config (demo_remotion (Fin 4) (Fin 1000))))"
    by (simp add: c is_double_4)
  have r0: "length (render_calls rstate0) = 0"
    by (simp add: rstate0_def)
  have first: "rm_concurrency (render_calls (snd (render demo_remotion_env
         (demo_remotion (Fin 4) (Fin 1000)) () ''v1'' rstate0)) ! 0) = Fin 4"
    by (simp add: render_calls_cases remotion_demo_defs Let_def)
  show ?thesis
    using fallback_concurrency_reduced [OF two num] two num by (simp add: r0 c first)
qed

subsection \<open>FFMpeg\<close>

lemmas ffmpeg_defs = FFMpeg_init_def setFfmpegPath_def set_gpuAccelerated_def
  get_gpuAccelerated_def getAudioCommand_def saveNormalizedAudio_def saveToMp3_def call_save_def

lemmas ffmpeg_demo_defs = demo_installer_def t4_env_def cpu_env_def fstate0_def

text \<open>
  C5. A fresh class (\<open>gpuAccelerated = false\<close>), \<open>nvidia-smi\<close> reports a T4, and listing
  the codecs of the ffmpeg build throws: \<open>init\<close> returns an instance, the log says
  that detection failed and that the CPU is used, and \<open>gpuAccelerated\<close> is \<open>true\<close>.
\<close>

theorem init_probe_throws_flag_stays:
  "ff_execSync t4_env (inst_path demo_installer @ '' -codecs'') =
     Inl (Error ''spawnSync /bin/sh ENOENT'') \<and>
   fst (FFMpeg_init t4_env fstate0) = Inr FFMpeg \<and>
   (Warn, ''GPU detection failed, using CPU'', Some (Error ''spawnSync /bin/sh ENOENT''))
     \<in> set (logged (snd (FFMpeg_init t4_env fstate0))) \<and>
   gpuAccelerated (snd (FFMpeg_init t4_env fstate0)) = True"
  by (simp add: ffmpeg_defs ffmpeg_demo_defs io_defs trim_def is_space_def nl_def Let_def)

text \<open>
  C6. \<open>saveNormalizedAudio\<close> and \<open>saveToMp3\<close> each run one command, on the given
  buffer and to the given file. If that run ends well, the method resolves with
  exactly the path it was given; if it ends with an error, the method rejects with
  that error. The field \<open>gpuAccelerated\<close> is left as it was.
\<close>

theorem save_resolves_with_path:
  "(\<exists>cmd. save_calls (snd (saveNormalizedAudio env audio outputPath s)) =
            save_calls s @ [(cmd, outputPath)] \<and>
          c_input cmd = audio \<and>
          fst (saveNormalizedAudio env audio outputPath s) =
            (case save env cmd outputPath of None \<Rightarrow> Inr outputPath | Some err \<Rightarrow> Inl err)) \<and>
   (\<exists>cmd. save_calls (snd (saveToMp3 env audio filePath s)) =
            save_calls s @ [(cmd, filePath)] \<and>
          c_input cmd = audio \<and>
          fst (saveToMp3 env audio filePath s) =
            (case save env cmd filePath of None \<Rightarrow> Inr filePath | Some err \<Rightarrow> Inl err)) \<and>
   gpuAccelerated (snd (saveNormalizedAudio env audio outputPath s)) = gpuAccelerated s \<and>
   gpuAccelerated (snd (saveToMp3 env audio filePath s)) = gpuAccelerated s"
  by (simp add: ffmpeg_defs io_defs Let_def ffmpeg_def outputOptions_def audioCodec_def
      audioChannels_def audioFrequency_def audioBitrate_def toFormat_def split: option.splits)

theorem save_resolves_with_path_witness:
  "fst (saveNormalizedAudio cpu_env [1, 2, 3] ''/tmp/a.wav'' fstate0) = Inr ''/tmp/a.wav'' \<and>
   fst (saveToMp3 cpu_env [1, 2, 3] ''/tmp/a.mp3'' fstate0) =
     Inl (Error ''ffmpeg exited with code 1'')"
  using save_resolves_with_path [of cpu_env "[1, 2, 3]" "''/tmp/a.wav''" fstate0 "''/tmp/a.mp3''"]
  by (simp add: ffmpeg_defs io_defs Let_def ffmpeg_def outputOptions_def audioCodec_def
      audioChannels_def audioFrequency_def audioBitrate_def toFormat_def ffmpeg_demo_defs)

subsection \<open>Whisper\<close>

text \<open>What \<open>CreateCaption\<close> returns, step by step, and what it logs when it throws.\<close>

lemma CreateCaption_result:
  "fst (CreateCaption env this audioPath s) =
     (case writeFile env (path_join [whisperInstallPath (w_config this), ''transcribe_gpu.py''])
             (pythonScript (whisperModel (w_config this)) audioPath) of
        Some e \<Rightarrow> Inl e
      | None \<Rightarrow>
          (case wh_execSync env
                  (''python '' @ path_join [whisperInstallPath (w_config this), ''transcribe_gpu.py'']) of
             Inl e \<Rightarrow> Inl e
           | Inr out \<Rightarrow>
               (case JSON_parse env out of
                  Inl e \<Rightarrow> Inl e
                | Inr ws \<Rightarrow>
                    Inr (map (\<lambda>word. \<lparr>cap_text = w_text word, startMs = js_round (w_start word),
                                       endMs = js_round (w_end word)\<rparr>) ws))))"
  by (simp add: CreateCaption_def io_defs Let_def split: option.splits sum.splits)


lemma CreateCaption2_result:
  "fst (CreateCaption2 env this audioPath s) =
     (case ensureDir env (whisperInstallPath (w_config this)) of
        Some e \<Rightarrow> Inl e
      | None \<Rightarrow>
     (case writeFile env (path_join [whisperInstallPath (w_config this), ''transcribe_gpu.py''])
             (pythonScript2 (whisperModel (w_config this)) audioPath) of
        Some e \<Rightarrow> Inl e
      | None \<Rightarrow>
          if \<not> wh_existsSync env (path_join [whisperInstallPath (w_config this), ''transcribe_gpu.py''])
          then Inl (Error (''Failed to create transcription script at '' @
                 path_join [whisperInstallPath (w_config this), ''transcribe_gpu.py'']))
          else
          (case wh_execSync env
                  (''python '' @ path_join [whisperInstallPath (w_config this), ''transcribe_gpu.py'']) of
             Inl e \<Rightarrow> Inl e
           | Inr out \<Rightarrow>
               (case JSON_parse env out of
                  Inl e \<Rightarrow> Inl e
                | Inr ws \<Rightarrow>
                    Inr (map (\<lambda>word. \<lparr>cap_text = w_text word, startMs = js_round (w_start word),
                                       endMs = js_round (w_end word)\<rparr>) ws)))))"
  by (simp add: CreateCaption2_def io_defs Let_def split: option.splits sum.splits)

lemma js_round_nearest: "nearest_integer x (js_round x)"
proof (cases x)
  case (Fin q)
  have "of_int \<lfloor>q + 1 / 2\<rfloor> \<le> q + 1 / 2" "q + 1 / 2 < of_int \<lfloor>q + 1 / 2\<rfloor> + 1"
    by linarith+
  then have "\<bar>of_int \<lfloor>q + 1 / 2\<rfloor> - q\<bar> \<le> 1 / 2"
    by linarith
  with Fin show ?thesis by simp
qed simp_all

lemma captions_match_map:
  "captions_match ws
     (map (\<lambda>word. \<lparr>cap_text = w_text word, startMs = js_round (w_start word),
                     endMs = js_round (w_end word)\<rparr>) ws)"
  by (simp add: captions_match_def js_round_nearest)

text \<open>
  C3. When the engine's output parses to the word list \<open>ws\<close> and the steps before it
  succeed, \<open>CreateCaption\<close> (in either revision) returns a caption list with as many
  captions as words, in the same order: caption \<open>i\<close> has the text of word \<open>i\<close>
  unchanged and its start and end rounded to the nearest integer.
\<close>

theorem captions_from_words:
  assumes exec: "wh_execSync env
      (''python '' @ path_join [whisperInstallPath (w_config this), ''transcribe_gpu.py'']) = Inr out"
    and parse: "JSON_parse env out = Inr ws"
  shows "(writeFile env (path_join [whisperInstallPath (w_config this), ''transcribe_gpu.py''])
            (pythonScript (whisperModel (w_config this)) audioPath) = None \<longrightarrow>
          (\<exists>caps. fst (CreateCaption env this audioPath s) = Inr caps \<and> captions_match ws caps)) \<and>
         (ensureDir env (whisperInstallPath (w_config this)) = None \<and>
          writeFile env (path_join [whisperInstallPath (w_config this), ''transcribe_gpu.py''])
            (pythonScript2 (whisperModel (w_config this)) audioPath) = None \<and>
          wh_existsSync env (path_join [whisperInstallPath (w_config this), ''transcribe_gpu.py'']) \<longrightarrow>
          (\<exists>caps. fst (CreateCaption2 env this audioPath s) = Inr caps \<and> captions_match ws caps))"
  using exec parse
  by (simp add: CreateCaption_result CreateCaption2_result captions_match_map)

theorem captions_from_words_witness:
  "wh_execSync whisper_ok_env
     (''python '' @ path_join [whisperInstallPath (w_config demo_whisper), ''transcribe_gpu.py'']) =
     Inr ''[...]'' \<and>
   JSON_parse whisper_ok_env ''[...]'' = Inr demo_words \<and>
   fst (CreateCaption whisper_ok_env demo_whisper ''/tmp/a.wav'' base0) =
     Inr [\<lparr>cap_text = '' Hello'', startMs = Fin 0, endMs = Fin 841\<rparr>,
          \<lparr>cap_text = '' world'', startMs = Fin 841, endMs = Fin 1235\<rparr>] \<and>
   fst (CreateCaption2 whisper_ok_env demo_whisper ''/tmp/a.wav'' base0) =
     Inr [\<lparr>cap_text = '' Hello'', startMs = Fin 0, endMs = Fin 841\<rparr>,
          \<lparr>cap_text = '' world'', startMs = Fin 841, endMs = Fin 1235\<rparr>] \<and>
   captions_match demo_words
     [\<lparr>cap_text = '' Hello'', startMs = Fin 0, endMs = Fin 841\<rparr>,
      \<lparr>cap_text = '' world'', startMs = Fin 841, endMs = Fin 1235\<rparr>]"
proof -
  have exec: "wh_execSync whisper_ok_env
     (''python '' @ path_join [whisperInstallPath (w_config demo_whisper), ''transcribe_gpu.py'']) =
     Inr ''[...]''"
    by (simp add: whisper_ok_env_def)
  have parse: "JSON_parse whisper_ok_env ''[...]'' = Inr demo_words"
    by (simp add: whisper_ok_env_def)
  have r1: "fst (CreateCaption whisper_ok_env demo_whisper ''/tmp/a.wav'' base0) =
     Inr [\<lparr>cap_text = '' Hello'', startMs = Fin 0, endMs = Fin 841\<rparr>,
          \<lparr>cap_text = '' world'', startMs = Fin 841, endMs = Fin 1235\<rparr>]"
    by (simp add: CreateCaption_result whisper_ok_env_def demo_words_def)
  have r2: "fst (CreateCaption2 whisper_ok_env demo_whisper ''/tmp/a.wav'' base0) =
     Inr [\<lparr>cap_text = '' Hello'', startMs = Fin 0, endMs = Fin 841\<rparr>,
          \<lparr>cap_text = '' world'', startMs = Fin 841, endMs = Fin 1235\<rparr>]"
    by (simp add: CreateCaption2_result whisper_ok_env_def demo_words_def)
  have w: "writeFile whisper_ok_env p c = None" for p c
    by (simp add: whisper_ok_env_def)
  from captions_from_words [OF exec parse, of "''/tmp/a.wav''" base0] w r1
  have "captions_match demo_words
     [\<lparr>cap_text = '' Hello'', startMs = Fin 0, endMs = Fin 841\<rparr>,
      \<lparr>cap_text = '' world'', startMs = Fin 841, endMs = Fin 1235\<rparr>]"
    by simp
  with exec parse r1 r2 show ?thesis by simp
qed

subsection \<open>Errors inside the wrappers\<close>




subsection \<open>Kokoro: init\<close>

lemmas kokoro_demo_defs = demo_outputs_def demo_kokoro_env_def nocuda_kokoro_env_def
  demo_kokoro_def kstate0_def

text \<open>The stages of \<open>init\<close>: what each returns, whatever the log holds.\<close>

lemma dependency_installation_result:
  "fst (dependency_installation env s) =
     (case kk_execSync env ''npm install onnxruntime-node@latest --save'' of
        Inr x \<Rightarrow> Inr ()
      | Inl installError \<Rightarrow>
          (case kk_execSync env ''npm install -g onnxruntime-node@latest'' of
             Inr x \<Rightarrow> Inr ()
           | Inl e \<Rightarrow> Inl e))"
  by (simp add: dependency_installation_def fst_io split: sum.splits)

lemma model_directory_setup_result:
  "fst (model_directory_setup env s) =
     (if kk_existsSync env (MODEL_DIR (cwd env)) then Inr ()
      else case mkdirSync env (MODEL_DIR (cwd env)) of None \<Rightarrow> Inr () | Some e \<Rightarrow> Inl e)"
  by (simp add: model_directory_setup_def fst_io)

lemma model_file_verification_result:
  "fst (model_file_verification env s) =
     (if \<not> kk_existsSync env (MODEL_FILE (cwd env))
      then Inl (Error (''Model file not found: '' @ MODEL_FILE (cwd env)))
      else if \<not> kk_existsSync env (CONFIG_FILE (cwd env))
      then Inl (Error (''Model file not found: '' @ CONFIG_FILE (cwd env)))
      else Inr ())"
  by (simp add: model_file_verification_def verifyFile_def fst_io)

lemma config_loading_result:
  "fst (config_loading env s) =
     (case readFileSync env (CONFIG_FILE (cwd env)) of
        Inl e \<Rightarrow> Inl e
      | Inr content \<Rightarrow>
          (case kk_JSON_parse env content of
             Inl e \<Rightarrow> Inl e
           | Inr JNull \<Rightarrow>
               Inl (TypeError (''Cannot read properties of null (reading '' @ sq @
                      ''sample_rate'' @ sq @ '')''))
           | Inr (JConfig config) \<Rightarrow>
               if \<not> truthy_field (sample_rate config)
               then Inl (Error ''Invalid config file: missing sample_rate'')
               else Inr config))"
  by (simp add: config_loading_def fst_io split: sum.splits parsed.splits)

lemma gpu_availability_check_result:
  "fst (gpu_availability_check env s) =
     (case getAvailableProviders env of
        Inl e \<Rightarrow> Inl e
      | Inr providers \<Rightarrow>
          if ''cuda'' \<notin> set providers then Inl (Error CUDA_not_available) else Inr ())"
  by (simp add: gpu_availability_check_def fst_io split: sum.splits)

lemma session_initialization_result:
  "fst (session_initialization env s) =
     create_session env (MODEL_FILE (cwd env))
       \<lparr>executionProviders = [''cuda''], graphOptimizationLevel = ''all'',
        enableCpuMemArena = True, enableMemPattern = True, logSeverityLevel = 1\<rparr>"
  by (simp add: session_initialization_def fst_io)

lemmas stage_results = dependency_installation_result model_directory_setup_result
  model_file_verification_result config_loading_result gpu_availability_check_result
  session_initialization_result

text \<open>What \<open>init\<close> returns: the instance, or the first failure of a stage, wrapped.\<close>

lemma Kokoro_init_result:
  fixes env :: "('h, 'e) kokoro_env" and s :: "'z base_scheme"
  shows "fst (Kokoro_init env s) =
     (case fst (dependency_installation env s) of
        Inl e \<Rightarrow> Inl (Error (''Failed to initialize Kokoro: '' @ message e))
      | Inr u1 \<Rightarrow>
     (case fst (model_directory_setup env s) of
        Inl e \<Rightarrow> Inl (Error (''Failed to initialize Kokoro: '' @ message e))
      | Inr u2 \<Rightarrow>
     (case fst (model_file_verification env s) of
        Inl e \<Rightarrow> Inl (Error (''Failed to initialize Kokoro: '' @ message e))
      | Inr u3 \<Rightarrow>
     (case fst (config_loading env s) of
        Inl e \<Rightarrow> Inl (Error (''Failed to initialize Kokoro: '' @ message e))
      | Inr config \<Rightarrow>
     (case fst (gpu_availability_check env s) of
        Inl e \<Rightarrow> Inl (Error (''Failed to initialize Kokoro: '' @ message e))
      | Inr u5 \<Rightarrow>
     (case fst (session_initialization env s) of
        Inl e \<Rightarrow> Inl (Error (''Failed to initialize Kokoro: '' @ message e))
      | Inr h \<Rightarrow> Inr \<lparr>session = Some h, k_config = config\<rparr>))))))"
proof -
  have indep: "fst (dependency_installation env t) = fst (dependency_installation env s)"
    "fst (model_directory_setup env t) = fst (model_directory_setup env s)"
    "fst (model_file_verification env t) = fst (model_file_verification env s)"
    "fst (config_loading env t) = fst (config_loading env s)"
    "fst (gpu_availability_check env t) = fst (gpu_availability_check env s)"
    "fst (session_initialization env t) = fst (session_initialization env s)"
    for t :: "'z base_scheme"
    by (simp_all add: stage_results)
  show ?thesis
    unfolding Kokoro_init_def
    by (simp add: fst_io indep [of "snd _"] split: sum.splits)
qed

lemma truthy_field_iff: "truthy_field x \<longleftrightarrow> (\<exists>r. x = Some r \<and> truthy r)"
  by (cases x) simp_all

text \<open>
  C7. \<open>Kokoro.init\<close> returns an instance only if \<open>model.onnx\<close> and \<open>config.json\<close>
  exist under the model directory, the parsed configuration has a \<open>sample_rate\<close>, and
  \<open>cuda\<close> is among the available providers. Whatever it throws is an error whose
  message is \<open>Failed to initialize Kokoro: \<close> followed by the message of the failure.
  Once the installation and the models directory are in place, each of these probes
  that fails gives its own message, wrapped so.
\<close>

theorem Kokoro_init_probes:
  fixes env :: "('h, 'e) kokoro_env" and s :: "'z base_scheme"
  shows "(fst (Kokoro_init env s) = Inr k \<longrightarrow>
       kk_existsSync env (MODEL_FILE (cwd env)) \<and>
       kk_existsSync env (CONFIG_FILE (cwd env)) \<and>
       (\<exists>content r. readFileSync env (CONFIG_FILE (cwd env)) = Inr content \<and>
          kk_JSON_parse env content = Inr (JConfig (k_config k)) \<and>
          sample_rate (k_config k) = Some r \<and> truthy r) \<and>
       (\<exists>providers. getAvailableProviders env = Inr providers \<and> ''cuda'' \<in> set providers)) \<and>
     (fst (Kokoro_init env s) = Inl err \<longrightarrow>
       (\<exists>e. err = Error (''Failed to initialize Kokoro: '' @ message e))) \<and>
     (((\<exists>x. kk_execSync env ''npm install onnxruntime-node@latest --save'' = Inr x) \<or>
       (\<exists>x. kk_execSync env ''npm install -g onnxruntime-node@latest'' = Inr x)) \<and>
      (kk_existsSync env (MODEL_DIR (cwd env)) \<or> mkdirSync env (MODEL_DIR (cwd env)) = None) \<longrightarrow>
       (\<not> kk_existsSync env (MODEL_FILE (cwd env)) \<longrightarrow>
          fst (Kokoro_init env s) =
            Inl (Error (''Failed to initialize Kokoro: '' @
                   ''Model file not found: '' @ MODEL_FILE (cwd env)))) \<and>
       (kk_existsSync env (MODEL_FILE (cwd env)) \<and> \<not> kk_existsSync env (CONFIG_FILE (cwd env)) \<longrightarrow>
          fst (Kokoro_init env s) =
            Inl (Error (''Failed to initialize Kokoro: '' @
                   ''Model file not found: '' @ CONFIG_FILE (cwd env)))) \<and>
       (kk_existsSync env (MODEL_FILE (cwd env)) \<and> kk_existsSync env (CONFIG_FILE (cwd env)) \<and>
        readFileSync env (CONFIG_FILE (cwd env)) = Inr content \<and>
        kk_JSON_parse env content = Inr (JConfig config) \<longrightarrow>
          (\<not> truthy_field (sample_rate config) \<longrightarrow>
             fst (Kokoro_init env s) =
               Inl (Error (''Failed to initialize Kokoro: '' @
                      ''Invalid config file: missing sample_rate''))) \<and>
          (truthy_field (sample_rate config) \<and> getAvailableProviders env = Inr providers \<and>
           ''cuda'' \<notin> set providers \<longrightarrow>
             fst (Kokoro_init env s) =
               Inl (Error (''Failed to initialize Kokoro: '' @ CUDA_not_available)))))"
proof -
  have returns: "kk_existsSync env (MODEL_FILE (cwd env)) \<and>
       kk_existsSync env (CONFIG_FILE (cwd env)) \<and>
       (\<exists>content r. readFileSync env (CONFIG_FILE (cwd env)) = Inr content \<and>
          kk_JSON_parse env content = Inr (JConfig (k_config k)) \<and>
          sample_rate (k_config k) = Some r \<and> truthy r) \<and>
       (\<exists>providers. getAvailableProviders env = Inr providers \<and> ''cuda'' \<in> set providers)"
    if ok: "fst (Kokoro_init env s) = Inr k"
  proof -
    from ok obtain h where
      files: "fst (model_file_verification env s) = Inr ()" and
      conf: "fst (config_loading env s) = Inr (k_config k)" and
      gpu: "fst (gpu_availability_check env s) = Inr ()"
      by (auto simp add: Kokoro_init_result split: sum.splits)
    from files have 1: "kk_existsSync env (MODEL_FILE (cwd env))"
      "kk_existsSync env (CONFIG_FILE (cwd env))"
      by (simp_all add: model_file_verification_result split: if_splits)
    from conf have 2: "\<exists>content r. readFileSync env (CONFIG_FILE (cwd env)) = Inr content \<and>
          kk_JSON_parse env content = Inr (JConfig (k_config k)) \<and>
          sample_rate (k_config k) = Some r \<and> truthy r"
      by (auto simp add: config_loading_result truthy_field_iff
          split: sum.splits parsed.splits if_splits)
    from gpu have 3: "\<exists>providers. getAvailableProviders env = Inr providers \<and>
        ''cuda'' \<in> set providers"
      by (auto simp add: gpu_availability_check_result split: sum.splits if_splits)
    from 1 2 3 show ?thesis by blast
  qed
  have throws: "\<exists>e. err = Error (''Failed to initialize Kokoro: '' @ message e)"
    if "fst (Kokoro_init env s) = Inl err"
    using that by (auto simp add: Kokoro_init_result split: sum.splits)
  have probes: "(\<not> kk_existsSync env (MODEL_FILE (cwd env)) \<longrightarrow>
          fst (Kokoro_init env s) =
            Inl (Error (''Failed to initialize Kokoro: '' @
                   ''Model file not found: '' @ MODEL_FILE (cwd env)))) \<and>
       (kk_existsSync env (MODEL_FILE (cwd env)) \<and> \<not> kk_existsSync env (CONFIG_FILE (cwd env)) \<longrightarrow>
          fst (Kokoro_init env s) =
            Inl (Error (''Failed to initialize Kokoro: '' @
                   ''Model file not found: '' @ CONFIG_FILE (cwd env)))) \<and>
       (kk_existsSync env (MODEL_FILE (cwd env)) \<and> kk_existsSync env (CONFIG_FILE (cwd env)) \<and>
        readFileSync env (CONFIG_FILE (cwd env)) = Inr content \<and>
        kk_JSON_parse env content = Inr (JConfig config) \<longrightarrow>
          (\<not> truthy_field (sample_rate config) \<longrightarrow>
             fst (Kokoro_init env s) =
               Inl (Error (''Failed to initialize Kokoro: '' @
                      ''Invalid config file: missing sample_rate''))) \<and>
          (truthy_field (sample_rate config) \<and> getAvailableProviders env = Inr providers \<and>
           ''cuda'' \<notin> set providers \<longrightarrow>
             fst (Kokoro_init env s) =
               Inl (Error (''Failed to initialize Kokoro: '' @ CUDA_not_available))))"
    if pre: "((\<exists>x. kk_execSync env ''npm install onnxruntime-node@latest --save'' = Inr x) \<or>
       (\<exists>x. kk_execSync env ''npm install -g onnxruntime-node@latest'' = Inr x)) \<and>
      (kk_existsSync env (MODEL_DIR (cwd env)) \<or> mkdirSync env (MODEL_DIR (cwd env)) = None)"
  proof -
    from pre have 1: "fst (dependency_installation env s) = Inr ()"
      by (auto simp add: dependency_installation_result split: sum.splits)
    from pre have 2: "fst (model_directory_setup env s) = Inr ()"
      by (auto simp add: model_directory_setup_result)
    show ?thesis
      by (simp add: Kokoro_init_result 1 2 model_file_verification_result
          config_loading_result gpu_availability_check_result)
  qed
  from returns throws probes show ?thesis by blast
qed

theorem Kokoro_init_probes_witness:
  "fst (Kokoro_init demo_kokoro_env base0) =
     Inr \<lparr>session = Some 7, k_config = \<lparr>sample_rate = Some (Fin 24000)\<rparr>\<rparr> \<and>
   kk_existsSync demo_kokoro_env (MODEL_FILE (cwd demo_kokoro_env)) \<and>
   kk_existsSync demo_kokoro_env (CONFIG_FILE (cwd demo_kokoro_env)) \<and>
   (\<exists>providers. getAvailableProviders demo_kokoro_env = Inr providers \<and>
      ''cuda'' \<in> set providers) \<and>
   getAvailableProviders nocuda_kokoro_env = Inr [''cpu''] \<and>
   fst (Kokoro_init nocuda_kokoro_env base0) =
     Inl (Error (''Failed to initialize Kokoro: '' @ CUDA_not_available))"
proof -
  have ok: "fst (Kokoro_init demo_kokoro_env base0) =
     Inr \<lparr>session = Some 7, k_config = \<lparr>sample_rate = Some (Fin 24000)\<rparr>\<rparr>"
    by (simp add: Kokoro_init_result stage_results demo_kokoro_env_def)
  have no: "kk_execSync nocuda_kokoro_env ''npm install onnxruntime-node@latest --save'' = Inr []"
    "kk_existsSync nocuda_kokoro_env p"
    "readFileSync nocuda_kokoro_env (CONFIG_FILE (cwd nocuda_kokoro_env)) =
       Inr ''{sample_rate: 24000}''"
    "kk_JSON_parse nocuda_kokoro_env ''{sample_rate: 24000}'' =
       Inr (JConfig \<lparr>sample_rate = Some (Fin 24000)\<rparr>)"
    "truthy_field (sample_rate \<lparr>sample_rate = Some (Fin 24000)\<rparr>)"
    "getAvailableProviders nocuda_kokoro_env = Inr [''cpu'']"
    "''cuda'' \<notin> set [''cpu'']" for p
    by (simp_all add: nocuda_kokoro_env_def demo_kokoro_env_def)
  from Kokoro_init_probes
    [where env = demo_kokoro_env and s = base0
       and k = "\<lparr>session = Some 7, k_config = \<lparr>sample_rate = Some (Fin 24000)\<rparr>\<rparr>"] ok
  have 1: "kk_existsSync demo_kokoro_env (MODEL_FILE (cwd demo_kokoro_env)) \<and>
     kk_existsSync demo_kokoro_env (CONFIG_FILE (cwd demo_kokoro_env)) \<and>
     (\<exists>providers. getAvailableProviders demo_kokoro_env = Inr providers \<and>
        ''cuda'' \<in> set providers)"
    by blast
  from Kokoro_init_probes
    [where env = nocuda_kokoro_env and s = base0 and content = "''{sample_rate: 24000}''"
       and config = "\<lparr>sample_rate = Some (Fin 24000)\<rparr>" and providers = "[''cpu'']"] no
  have 2: "fst (Kokoro_init nocuda_kokoro_env base0) =
     Inl (Error (''Failed to initialize Kokoro: '' @ CUDA_not_available))"
    by blast
  from ok 1 2 no(6) show ?thesis by blast
qed

subsection \<open>Kokoro: generate\<close>

text \<open>
  C8. For an empty text (missing or of length zero) \<open>preprocessText\<close> throws, and
  \<open>generate\<close> throws without a run of the inference engine: the list of runs and
  the engine's state are as before. With a session and a text of length zero the
  error of \<open>preprocessText\<close> is the one logged and thrown. With a session and a
  missing text the \<open>catch\<close> block reads \<open>text.length\<close> for its log line, and the
  error thrown is the \<open>TypeError\<close> of that read.
\<close>

theorem generate_empty_text:
  assumes empty: "text = None \<or> text = Some []"
  shows "(\<exists>e. fst (generate env this text voice s) = Inl e) \<and>
     run_calls (snd (generate env this text voice s)) = run_calls s \<and>
     engine (snd (generate env this text voice s)) = engine s \<and>
     preprocessText text voice = Inl (Error ''Input text cannot be empty'') \<and>
     (session this \<noteq> None \<and> text = Some [] \<longrightarrow>
        fst (generate env this text voice s) = Inl (Error ''Input text cannot be empty'') \<and>
        last (logged (snd (generate env this text voice s))) =
          (Err, ''Failed to generate audio'', Some (Error ''Input text cannot be empty''))) \<and>
     (session this \<noteq> None \<and> text = None \<longrightarrow>
        fst (generate env this text voice s) =
          Inl (TypeError (''Cannot read properties of undefined (reading '' @ sq @
                 ''length'' @ sq @ '')'')))"
  using empty
  by (auto simp add: generate_def preprocessText_def text_length_def io_defs
      split: option.splits)

theorem generate_empty_text_witness:
  "fst (generate demo_kokoro_env demo_kokoro (Some []) ''af_heart'' kstate0) =
     Inl (Error ''Input text cannot be empty'') \<and>
   run_calls (snd (generate demo_kokoro_env demo_kokoro (Some []) ''af_heart'' kstate0)) = [] \<and>
   engine (snd (generate demo_kokoro_env demo_kokoro (Some []) ''af_heart'' kstate0)) = 0 \<and>
   (\<exists>e. fst (generate demo_kokoro_env demo_kokoro None ''af_heart'' kstate0) = Inl e) \<and>
   run_calls (snd (generate demo_kokoro_env demo_kokoro None ''af_heart'' kstate0)) = []"
proof -
  have 1: "(Some [] :: js_text) = None \<or> (Some [] :: js_text) = Some []"
    by simp
  have 2: "(None :: js_text) = None \<or> (None :: js_text) = Some []"
    by simp
  have k: "session demo_kokoro \<noteq> None" "run_calls kstate0 = []" "engine kstate0 = 0"
    by (simp_all add: kokoro_demo_defs)
  from generate_empty_text [OF 1, of demo_kokoro_env demo_kokoro "''af_heart''" kstate0]
    generate_empty_text [OF 2, of demo_kokoro_env demo_kokoro "''af_heart''" kstate0] k
  show ?thesis by simp
qed

subsection \<open>Kokoro: the audio buffer\<close>

lemma bytes_of_int16:
  "or (push_bit 8 (ucast (ucast (drop_bit 8 w) :: 8 word))) (ucast (ucast w :: 8 word)) =
     (w :: 16 word)"
  by (rule bit_word_eqI) (auto simp: bit_simps)

lemma sint_int16:
  "- 32768 \<le> k \<Longrightarrow> k \<le> 32767 \<Longrightarrow> sint (word_of_int k :: 16 word) = k"
  by (simp add: sint_sbintrunc' signed_take_bit_int_eq_self)

lemma trunc_zero_range:
  assumes "- 32768 \<le> x" "x \<le> 32767"
  shows "- 32768 \<le> trunc_zero x \<and> trunc_zero x \<le> 32767"
proof (cases "0 \<le> x")
  case True
  with assms show ?thesis by (simp add: trunc_zero_def floor_le_iff le_floor_iff)
next
  case False
  with assms show ?thesis by (simp add: trunc_zero_def ceiling_le_iff le_ceiling_iff)
qed

text \<open>
  What the conversion of \<open>setInt16\<close> makes of a scaled and clamped sample of a float
  tensor: the product with 32767 is exact.
\<close>

lemma sint_ToInt16_sample:
  assumes "is_sample x"
  shows "sint (ToInt16 (js_min (Fin 32767) (js_max (Fin (- 32768)) (js_mul x (Fin 32767))))) =
     stored_sample x"
proof (cases x)
  case (Fin v)
  with assms have "is_float32 v" by simp
  then have prod: "round64 (v * 32767) = Fin (v * 32767)"
    by (rule float32_times_32767)
  have eq: "min 32767 (max (- 32768) (v * 32767)) = scaled_clamped v"
    by (simp add: scaled_clamped_def min_def max_def)
  have "- 32768 \<le> scaled_clamped v" "scaled_clamped v \<le> 32767"
    by (simp_all add: scaled_clamped_def)
  then have "- 32768 \<le> trunc_zero (scaled_clamped v) \<and> trunc_zero (scaled_clamped v) \<le> 32767"
    by (rule trunc_zero_range)
  then have "sint (word_of_int (trunc_zero (scaled_clamped v)) :: 16 word) =
      trunc_zero (scaled_clamped v)"
    by (simp add: sint_int16)
  with Fin eq show ?thesis
    by (simp add: ToInt16_def trunc_zero_def prod)
qed (simp_all add: ToInt16_def)

lemma setInt16_in_range:
  "byteOffset + 2 \<le> length buf \<Longrightarrow>
   setInt16 buf byteOffset x True =
     Inr (buf[byteOffset := ucast (ToInt16 x), byteOffset + 1 := ucast (drop_bit 8 (ToInt16 x))])"
  by (simp add: setInt16_def Let_def)

lemma getInt16_of_bytes:
  assumes "byteOffset + 2 \<le> length buf"
    and "buf ! byteOffset = ucast w" and "buf ! (byteOffset + 1) = ucast (drop_bit 8 w)"
  shows "getInt16 buf byteOffset True = Inr (sint (w :: 16 word))"
  using assms by (simp add: getInt16_def Let_def bytes_of_int16)

text \<open>
  The loop of \<open>postprocessAudio\<close>, from any index on: it never leaves the buffer,
  keeps the bytes below the index, and stores each sample at its place.
\<close>

lemma write_samples_ok:
  "(index + length xs) * 2 \<le> length buf \<Longrightarrow>
   \<exists>buf'. write_samples xs index buf = Inr buf' \<and> length buf' = length buf \<and>
     (\<forall>j < index * 2. buf' ! j = buf ! j) \<and>
     (\<forall>k < length xs. is_sample (xs ! k) \<longrightarrow>
        getInt16 buf' ((index + k) * 2) True = Inr (stored_sample (xs ! k)))"
proof (induction xs arbitrary: index buf)
  case Nil
  then show ?case by simp
next
  case (Cons x xs)
  let ?v = "js_min (Fin 32767) (js_max (Fin (- 32768)) (js_mul x (Fin 32767)))"
  let ?b = "buf[index * 2 := ucast (ToInt16 ?v),
                index * 2 + 1 := ucast (drop_bit 8 (ToInt16 ?v))]"
  from Cons.prems have room: "index * 2 + 2 \<le> length buf"
    by simp
  then have step: "setInt16 buf (index * 2) ?v True = Inr ?b"
    by (rule setInt16_in_range)
  from Cons.prems have "(index + 1 + length xs) * 2 \<le> length ?b"
    by simp
  from Cons.IH [OF this] obtain buf' where
    run: "write_samples xs (index + 1) ?b = Inr buf'" and
    len: "length buf' = length ?b" and
    low: "\<forall>j < (index + 1) * 2. buf' ! j = ?b ! j" and
    rest: "\<forall>k < length xs. is_sample (xs ! k) \<longrightarrow>
      getInt16 buf' ((index + 1 + k) * 2) True = Inr (stored_sample (xs ! k))"
    by blast
  have all: "write_samples (x # xs) index buf = Inr buf'"
    using step run by simp
  have keep: "\<forall>j < index * 2. buf' ! j = buf ! j"
    using low by simp
  have b0: "buf' ! (index * 2) = ucast (ToInt16 ?v)"
    using low room by simp
  have b1: "buf' ! (index * 2 + 1) = ucast (drop_bit 8 (ToInt16 ?v))"
    using low room by simp
  have first: "getInt16 buf' (index * 2) True = Inr (stored_sample x)" if "is_sample x"
    using getInt16_of_bytes [of "index * 2" buf' "ToInt16 ?v"] room len b0 b1
    by (simp add: sint_ToInt16_sample [OF that])
  have "getInt16 buf' ((index + k) * 2) True = Inr (stored_sample ((x # xs) ! k))"
    if "k < length (x # xs)" "is_sample ((x # xs) ! k)" for k
  proof (cases k)
    case 0
    with first that show ?thesis by simp
  next
    case (Suc k')
    with that rest show ?thesis by simp
  qed
  with all len keep show ?case by simp
qed

lemma postprocessAudio_result:
  "fst (postprocessAudio outs s) =
     (case o_audio outs of
        None \<Rightarrow> Inl (TypeError (''Cannot read properties of undefined (reading '' @ sq @
                  ''data'' @ sq @ '')''))
      | Some a \<Rightarrow>
          (case a_data a of
             None \<Rightarrow> Inl (Error ''Empty audio data received'')
           | Some audioData \<Rightarrow>
               if length audioData = 0 then Inl (Error ''Empty audio data received'')
               else write_samples audioData 0 (replicate (length audioData * 2) 0)))"
  by (simp add: postprocessAudio_def io_defs split: option.splits sum.splits)

text \<open>The buffers of the example runs, sample by sample.\<close>

lemma sample_products:
  "round64 (32767 / 2) = Fin (32767 / 2)"
  "round64 (- 65534) = Fin (- 65534)"
  using round64_ratio [of 32767 1] round64_int [of "- 65534"] by simp_all

lemma demo_bytes:
  "setInt16 [0, 0] 0 (js_min (Fin 32767) (js_max (Fin (- 32768)) (Fin (32767 / 2)))) True =
     Inr [255, 63]"
  "setInt16 [0, 0, 0, 0, 0, 0] 0
     (js_min (Fin 32767) (js_max (Fin (- 32768)) (Fin (32767 / 2)))) True =
     Inr [255, 63, 0, 0, 0, 0]"
  "setInt16 [255, 63, 0, 0, 0, 0] 2
     (js_min (Fin 32767) (js_max (Fin (- 32768)) (Fin (- 65534)))) True =
     Inr [255, 63, 0, 128, 0, 0]"
  "setInt16 [255, 63, 0, 128, 0, 0] 4
     (js_min (Fin 32767) (js_max (Fin (- 32768)) NaN)) True =
     Inr [255, 63, 0, 128, 0, 0]"
  by code_simp+

lemma write_one_sample:
  "write_samples [Fin (1 / 2)] 0 [0, 0] = Inr [255, 63]"
  using demo_bytes(1) by (simp add: sample_products)

lemma write_demo_samples:
  "write_samples [Fin (1 / 2), Fin (- 2), NaN] 0 [0, 0, 0, 0, 0, 0] = Inr [255, 63, 0, 128, 0, 0]"
  using demo_bytes(2-4) by (simp add: sample_products)

lemma postprocessAudio_demo:
  "fst (postprocessAudio demo_outputs s) = Inr [255, 63, 0, 128, 0, 0]"
  using write_demo_samples
  by (simp add: postprocessAudio_result demo_outputs_def numeral_eq_Suc)

lemma demo_samples_float:
  "is_sample (Fin (1 / 2))" "is_sample (Fin (- 2))" "is_sample NaN"
  using round_binary_repr [of "1 / 2" 1 "- 1" 24 "- 149" 128]
    round_binary_repr [of "- 2" "- 2" 0 24 "- 149" 128]
  by (simp_all add: is_float32_def power_int_minus)

text \<open>
  C9, as stated: the 16-bit value stored for a sample equals the sample scaled by
  32767 and clamped. For the one sample \<open>0.5\<close> the buffer holds the two bytes of
  16383, and the scaled sample is 16383.5.
\<close>

theorem stored_value_is_truncated:
  "fst (postprocessAudio \<lparr>o_audio = Some \<lparr>a_data = Some [Fin (1 / 2)]\<rparr>\<rparr> base0) = Inr [255, 63] \<and>
   getInt16 [255, 63] 0 True = Inr 16383 \<and>
   scaled_clamped (1 / 2) = 32767 / 2 \<and>
   real_of_int 16383 \<noteq> scaled_clamped (1 / 2)"
proof -
  have "fst (postprocessAudio \<lparr>o_audio = Some \<lparr>a_data = Some [Fin (1 / 2)]\<rparr>\<rparr> base0) =
      Inr [255, 63]"
    using write_one_sample by (simp add: postprocessAudio_result numeral_eq_Suc)
  moreover have "getInt16 [255, 63] 0 True = Inr 16383"
    by code_simp
  moreover have "scaled_clamped (1 / 2) = 32767 / 2"
    by (simp add: scaled_clamped_def)
  ultimately show ?thesis
    by simp
qed

text \<open>
  C9, amended. For a non-empty array of samples \<open>postprocessAudio\<close> returns a buffer
  of exactly 2 bytes per sample. For each sample \<open>i\<close> that is a value of a float
  tensor (a 32-bit float, an infinity or NaN), the 16-bit little-endian value at
  sample \<open>i\<close> is the sample scaled by 32767, clamped into the range from -32768 to
  32767 and truncated towards zero (NaN is stored as 0). For an empty or missing
  array it throws.
\<close>

theorem postprocessAudio_samples:
  assumes audio: "o_audio outs = Some a"
  shows "(\<forall>xs. a_data a = Some xs \<and> xs \<noteq> [] \<longrightarrow>
            (\<exists>buf. fst (postprocessAudio outs s) = Inr buf \<and>
               length buf = 2 * length xs \<and>
               (\<forall>i < length xs. is_sample (xs ! i) \<longrightarrow>
                  getInt16 buf (2 * i) True = Inr (stored_sample (xs ! i))))) \<and>
         (a_data a = None \<or> a_data a = Some [] \<longrightarrow>
            fst (postprocessAudio outs s) = Inl (Error ''Empty audio data received''))"
proof (intro conjI allI impI)
  fix xs
  assume "a_data a = Some xs \<and> xs \<noteq> []"
  then have xs: "a_data a = Some xs" "xs \<noteq> []"
    by simp_all
  have "(0 + length xs) * 2 \<le> length (replicate (length xs * 2) (0 :: 8 word))"
    by simp
  from write_samples_ok [OF this] obtain buf where
    run: "write_samples xs 0 (replicate (length xs * 2) 0) = Inr buf" and
    len: "length buf = length xs * 2" and
    vals: "\<forall>k < length xs. is_sample (xs ! k) \<longrightarrow>
      getInt16 buf ((0 + k) * 2) True = Inr (stored_sample (xs ! k))"
    by auto
  have "fst (postprocessAudio outs s) = Inr buf"
    using audio xs run by (simp add: postprocessAudio_result)
  moreover have "\<forall>i < length xs. is_sample (xs ! i) \<longrightarrow>
      getInt16 buf (2 * i) True = Inr (stored_sample (xs ! i))"
    using vals by (simp add: mult.commute)
  ultimately show "\<exists>buf. fst (postprocessAudio outs s) = Inr buf \<and>
      length buf = 2 * length xs \<and>
      (\<forall>i < length xs. is_sample (xs ! i) \<longrightarrow>
         getInt16 buf (2 * i) True = Inr (stored_sample (xs ! i)))"
    using len by simp
next
  assume "a_data a = None \<or> a_data a = Some []"
  then show "fst (postprocessAudio outs s) = Inl (Error ''Empty audio data received'')"
    using audio by (auto simp add: postprocessAudio_result)
qed

theorem postprocessAudio_samples_witness:
  "o_audio demo_outputs = Some \<lparr>a_data = Some [Fin (1 / 2), Fin (- 2), NaN]\<rparr> \<and>
   is_sample (Fin (1 / 2)) \<and> is_sample (Fin (- 2)) \<and> is_sample NaN \<and>
   fst (postprocessAudio demo_outputs base0) = Inr [255, 63, 0, 128, 0, 0] \<and>
   getInt16 [255, 63, 0, 128, 0, 0] 0 True = Inr (stored_sample (Fin (1 / 2))) \<and>
   getInt16 [255, 63, 0, 128, 0, 0] 2 True = Inr (stored_sample (Fin (- 2))) \<and>
   getInt16 [255, 63, 0, 128, 0, 0] 4 True = Inr (stored_sample NaN) \<and>
   stored_sample (Fin (1 / 2)) = 16383 \<and> stored_sample (Fin (- 2)) = - 32768 \<and>
   fst (postprocessAudio \<lparr>o_audio = Some \<lparr>a_data = Some []\<rparr>\<rparr> base0) =
     Inl (Error ''Empty audio data received'')"
proof -
  have a: "o_audio demo_outputs = Some \<lparr>a_data = Some [Fin (1 / 2), Fin (- 2), NaN]\<rparr>"
    by (simp add: demo_outputs_def)
  have r: "fst (postprocessAudio demo_outputs base0) = Inr [255, 63, 0, 128, 0, 0]"
    by (rule postprocessAudio_demo)
  have e: "o_audio \<lparr>o_audio = Some \<lparr>a_data = Some []\<rparr>\<rparr> = Some \<lparr>a_data = Some []\<rparr>"
    by simp
  have s: "stored_sample (Fin (1 / 2)) = 16383" "stored_sample (Fin (- 2)) = - 32768"
    by (simp_all add: scaled_clamped_def trunc_zero_def)
  note f = demo_samples_float
  from postprocessAudio_samples [OF a, of base0] r
  have q: "\<forall>i < 3. is_sample ([Fin (1 / 2), Fin (- 2), NaN] ! i) \<longrightarrow>
      getInt16 [255, 63, 0, 128, 0, 0] (2 * i) True =
      Inr (stored_sample ([Fin (1 / 2), Fin (- 2), NaN] ! i))"
    by simp
  from q [rule_format, of 0] q [rule_format, of 1] q [rule_format, of 2] f
  have g: "getInt16 [255, 63, 0, 128, 0, 0] 0 True = Inr (stored_sample (Fin (1 / 2)))"
    "getInt16 [255, 63, 0, 128, 0, 0] 2 True = Inr (stored_sample (Fin (- 2)))"
    "getInt16 [255, 63, 0, 128, 0, 0] 4 True = Inr (stored_sample NaN)"
    by simp_all
  from postprocessAudio_samples [OF e, of base0]
  have "fst (postprocessAudio \<lparr>o_audio = Some \<lparr>a_data = Some []\<rparr>\<rparr> base0) =
      Inl (Error ''Empty audio data received'')"
    by simp
  with a r s g f show ?thesis
    by simp
qed

text \<open>
  Outside the float tensors the product with 32767 is rounded before it is clamped
  and truncated: the double nearest to \<open>1 / 32767\<close> is below \<open>1 / 32767\<close>, and its
  product with 32767 rounds to 1.
\<close>

lemma double_product_rounds:
  "round64 (1 / 32767) = Fin (35185445863425 / 1152921504606846976) \<and>
   js_mul (Fin (35185445863425 / 1152921504606846976)) (Fin 32767) = Fin 1 \<and>
   stored_sample (Fin (35185445863425 / 1152921504606846976)) = 0"
proof -
  have 1: "round64 (1 / 32767) = Fin (35185445863425 / 1152921504606846976)"
    using round64_eval [of "- 15" "1 / 32767"]
    by (simp add: power_int_minus round_half_even_def Let_def)
  have 2: "round64 (35185445863425 / 1152921504606846976 * 32767) = Fin 1"
    using round64_eval [of "- 1" "35185445863425 / 1152921504606846976 * 32767"]
    by (simp add: power_int_minus round_half_even_def Let_def)
  have 3: "stored_sample (Fin (35185445863425 / 1152921504606846976)) = 0"
    by (simp add: scaled_clamped_def trunc_zero_def)
  from 1 2 3 show ?thesis by simp
qed

subsection \<open>Kokoro: the length of the audio\<close>







end
